theory Spec2Isabelle
  imports Main
begin

section \<open>WireGuard manager: peer provisioning and key custody\<close>

text \<open>
  A shallow embedding of the backend of the WireGuard manager: the key-custody store
  (\<^verbatim>\<open>backend/database.js\<close>), the router client (\<^verbatim>\<open>MikrotikAPI\<close>) and the route
  handlers of the server module. The router and the SQLite file are outside the program;
  they appear as a \<open>world\<close> that the functions thread through, and an \<open>env\<close> that
  decides which external request fails and what the router and the key tool answer.
  A thrown JavaScript \<open>Error\<close> is \<open>Inl\<close> of its message.
\<close>

subsection \<open>JavaScript values\<close>

text \<open>
  A value that may be \<open>undefined\<close> or \<open>null\<close> is a \<open>string option\<close>. Strings are
  taken as ASCII.
\<close>

definition truthy :: "string option \<Rightarrow> bool" where
  "truthy v = (case v of None \<Rightarrow> False | Some s \<Rightarrow> s \<noteq> [])"

text \<open>What a template literal prints for a value that may be \<open>undefined\<close>.\<close>

definition js_str :: "string option \<Rightarrow> string" where
  "js_str v = (case v of None \<Rightarrow> ''undefined'' | Some s \<Rightarrow> s)"

definition is_space :: "char \<Rightarrow> bool" where
  "is_space c = (c = CHR '' '' \<or> (9 \<le> (of_char c :: nat) \<and> (of_char c :: nat) \<le> 13))"

definition trim :: "string \<Rightarrow> string" where
  "trim s = rev (dropWhile is_space (rev (dropWhile is_space s)))"

text \<open>\<^verbatim>\<open>s.includes(pat)\<close>\<close>

fun str_includes :: "string \<Rightarrow> string \<Rightarrow> bool" where
  "str_includes [] pat = (pat = [])"
| "str_includes (c # cs) pat = (take (length pat) (c # cs) = pat \<or> str_includes cs pat)"

text \<open>\<^verbatim>\<open>xs.join(sep)\<close>\<close>

fun join :: "string \<Rightarrow> string list \<Rightarrow> string" where
  "join sep [] = []"
| "join sep [x] = x"
| "join sep (x # y # ys) = x @ sep @ join sep (y # ys)"

text \<open>\<^verbatim>\<open>s.split('/')[0]\<close>: the text before the first slash.\<close>

definition before_slash :: "string \<Rightarrow> string" where
  "before_slash s = takeWhile (\<lambda>c. c \<noteq> CHR ''/'') s"

text \<open>Decimal rendering of a loop counter inside a template literal.\<close>

definition digit :: "nat \<Rightarrow> char" where
  "digit d = ''0123456789'' ! d"

function show_nat :: "nat \<Rightarrow> string" where
  "show_nat n = (if n < 10 then [digit n] else show_nat (n div 10) @ [digit (n mod 10)])"
  by pat_completeness auto
termination
  by (relation "measure (\<lambda>n. n)") auto

declare show_nat.simps [simp del]

subsection \<open>Configuration\<close>

text \<open>
  \<^verbatim>\<open>config.json\<close> is not part of the sources; its fields are parameters.
  \<open>mk_interfaceName\<close> is \<^verbatim>\<open>config.mikrotik.wireguard?.interfaceName\<close>, which the router
  client reads; the other fields are those of \<^verbatim>\<open>config.wireguard\<close>.
\<close>

record config =
  interfaceName :: "string option"
  clientSubnet :: "string option"
  serverEndpoint :: string
  allowedIPs :: string
  mk_interfaceName :: "string option"

subsection \<open>The world outside the program\<close>

text \<open>A peer as the router reports it (\<open>peer_id\<close> is the property \<^verbatim>\<open>.id\<close>).\<close>

record peer =
  peer_id :: string
  interface :: "string option"
  public_key :: "string option"
  allowed_address :: "string option"
  comment :: "string option"
  disabled :: "string option"
  peer_preshared_key :: "string option"

record wg_interface =
  if_name :: string
  if_public_key :: "string option"

text \<open>A row of table \<^verbatim>\<open>peer_keys\<close>; the timestamps are abstract clock readings.\<close>

record row =
  rowid :: nat
  mikrotik_id :: string
  name :: string
  private_key :: string
  preshared_key :: "string option"
  allowed_ips :: string
  created_at :: nat
  updated_at :: nat

text \<open>External requests: the router commands and the SQL statements.\<close>

datatype call =
    Connect
  | WgPrint
  | PeersPrint
  | PeersAdd
  | PeersSet string
  | PeersRemove string
  | SqlInsert string
  | SqlSelect string
  | SqlSelectAll
  | SqlUpdate string
  | SqlDelete string

text \<open>
  \<open>peers\<close> and \<open>wg_interfaces\<close> are the router's tables, \<open>isConnected\<close> and
  \<open>wireguardInterface\<close> the fields of the \<^verbatim>\<open>MikrotikAPI\<close> object, \<open>rows\<close> and
  \<open>lastID\<close> the SQLite table and its autoincrement counter, \<open>calls\<close> the external
  requests made so far, in order, and \<open>console\<close> the lines the route handlers and
  \<^verbatim>\<open>cleanupOrphanedPeers\<close> write with \<^verbatim>\<open>console.error\<close> and \<^verbatim>\<open>console.warn\<close>
  (informational \<^verbatim>\<open>console.log\<close> lines are left out).
\<close>

record world =
  peers :: "peer list"
  wg_interfaces :: "wg_interface list"
  isConnected :: bool
  wireguardInterface :: "string option"
  rows :: "row list"
  lastID :: nat
  calls :: "call list"
  console :: "string list"

text \<open>The shape in which the router reports the identifier of an added peer.\<close>

datatype reply_shape = ShapeRet | ShapeArray | ShapeId | ShapeAfter | ShapeNone

text \<open>
  The environment of a run. \<open>fault n c\<close> is the error message with which external
  request \<open>c\<close> fails when it is the \<open>n\<close>-th request overall (\<open>None\<close>: it succeeds);
  \<open>keytool n\<close> is what the key generator backends produce (private key, public key,
  preshared key), \<open>None\<close> when neither backend is usable; \<open>new_id n\<close> and \<open>shape n\<close>
  are the identifier the router gives an added peer and the form of its reply;
  \<open>timestamp n\<close> is \<^verbatim>\<open>CURRENT_TIMESTAMP\<close>. All are indexed by the number of
  requests made before.
\<close>

record env =
  fault :: "nat \<Rightarrow> call \<Rightarrow> string option"
  keytool :: "nat \<Rightarrow> (string \<times> string \<times> string) option"
  new_id :: "nat \<Rightarrow> string"
  shape :: "nat \<Rightarrow> reply_shape"
  timestamp :: "nat \<Rightarrow> nat"

type_synonym 'a io = "world \<Rightarrow> (string + 'a) \<times> world"

text \<open>Sequencing of two awaited steps, and \<^verbatim>\<open>try { ... } catch (error) { ... }\<close>.\<close>

definition and_then :: "'a io \<Rightarrow> ('a \<Rightarrow> 'b io) \<Rightarrow> 'b io" where
  "and_then m f w = (case m w of (Inl e, w') \<Rightarrow> (Inl e, w') | (Inr a, w') \<Rightarrow> f a w')"

definition try_catch :: "'a io \<Rightarrow> (string \<Rightarrow> 'a io) \<Rightarrow> 'a io" where
  "try_catch m h w = (case m w of (Inl e, w') \<Rightarrow> h e w' | (Inr a, w') \<Rightarrow> (Inr a, w'))"

definition return :: "'a \<Rightarrow> 'a io" where
  "return a w = (Inr a, w)"

definition throw :: "string \<Rightarrow> 'a io" where
  "throw e w = (Inl e, w)"

definition log_line :: "string \<Rightarrow> unit io" where
  "log_line s w = (Inr (), w\<lparr>console := console w @ [s]\<rparr>)"

text \<open>
  An external request: it is recorded, and the environment decides whether it fails.
  A request that fails changes neither the router nor the table.
\<close>

definition request :: "env \<Rightarrow> call \<Rightarrow> unit io" where
  "request env c w =
     (let w' = w\<lparr>calls := calls w @ [c]\<rparr> in
      case fault env (length (calls w)) c of
        Some msg \<Rightarrow> (Inl msg, w')
      | None \<Rightarrow> (Inr (), w'))"

subsection \<open>The key-custody store (database.js)\<close>

text \<open>The argument of \<^verbatim>\<open>savePeerKeys\<close>; \<open>kd_allowed_ips\<close> may be \<open>undefined\<close>.\<close>

record key_data =
  kd_mikrotik_id :: string
  kd_name :: string
  kd_private_key :: string
  kd_preshared_key :: "string option"
  kd_allowed_ips :: "string option"

text \<open>
  \<^verbatim>\<open>INSERT OR REPLACE\<close> on a table whose \<^verbatim>\<open>mikrotik_id\<close> is \<^verbatim>\<open>UNIQUE\<close>: the row
  in conflict is deleted and the new row inserted with the next autoincrement id and
  fresh timestamps. \<^verbatim>\<open>allowed_ips\<close> is \<^verbatim>\<open>NOT NULL\<close> without a default, so a null
  value aborts the statement. The promise resolves to \<^verbatim>\<open>this.lastID\<close>.
\<close>

definition savePeerKeys :: "env \<Rightarrow> key_data \<Rightarrow> nat io" where
  "savePeerKeys env d w =
     (let t = timestamp env (length (calls w)) in
      case request env (SqlInsert (kd_mikrotik_id d)) w of
        (Inl e, w') \<Rightarrow> (Inl e, w')
      | (Inr _, w') \<Rightarrow>
          (case kd_allowed_ips d of
             None \<Rightarrow> (Inl ''SQLITE_CONSTRAINT: NOT NULL constraint failed: peer_keys.allowed_ips'', w')
           | Some a \<Rightarrow>
               (let r = \<lparr>rowid = Suc (lastID w'), mikrotik_id = kd_mikrotik_id d,
                         name = kd_name d, private_key = kd_private_key d,
                         preshared_key = kd_preshared_key d, allowed_ips = a,
                         created_at = t, updated_at = t\<rparr>
                in (Inr (Suc (lastID w')),
                    w'\<lparr>rows := filter (\<lambda>x. mikrotik_id x \<noteq> kd_mikrotik_id d) (rows w') @ [r],
                       lastID := Suc (lastID w')\<rparr>))))"

text \<open>\<^verbatim>\<open>SELECT * FROM peer_keys WHERE mikrotik_id = ?\<close>, first row or \<open>undefined\<close>.\<close>

definition getPeerKeys :: "env \<Rightarrow> string \<Rightarrow> row option io" where
  "getPeerKeys env i w =
     (case request env (SqlSelect i) w of
        (Inl e, w') \<Rightarrow> (Inl e, w')
      | (Inr _, w') \<Rightarrow> (Inr (find (\<lambda>x. mikrotik_id x = i) (rows w')), w'))"

text \<open>\<^verbatim>\<open>UPDATE peer_keys SET preshared_key = ?, updated_at = ... WHERE mikrotik_id = ?\<close>,
  resolving to the number of rows changed.\<close>

definition updatePresharedKey :: "env \<Rightarrow> string \<Rightarrow> string \<Rightarrow> nat io" where
  "updatePresharedKey env i k w =
     (let t = timestamp env (length (calls w)) in
      case request env (SqlUpdate i) w of
        (Inl e, w') \<Rightarrow> (Inl e, w')
      | (Inr _, w') \<Rightarrow>
          (Inr (length (filter (\<lambda>x. mikrotik_id x = i) (rows w'))),
           w'\<lparr>rows := map (\<lambda>x. if mikrotik_id x = i
                                  then x\<lparr>preshared_key := Some k, updated_at := t\<rparr> else x)
                           (rows w')\<rparr>))"

text \<open>\<^verbatim>\<open>DELETE FROM peer_keys WHERE mikrotik_id = ?\<close>, resolving to the number of rows
  deleted.\<close>

definition deletePeerKeys :: "env \<Rightarrow> string \<Rightarrow> nat io" where
  "deletePeerKeys env i w =
     (case request env (SqlDelete i) w of
        (Inl e, w') \<Rightarrow> (Inl e, w')
      | (Inr _, w') \<Rightarrow>
          (Inr (length (filter (\<lambda>x. mikrotik_id x = i) (rows w'))),
           w'\<lparr>rows := filter (\<lambda>x. mikrotik_id x \<noteq> i) (rows w')\<rparr>))"

text \<open>\<^verbatim>\<open>SELECT mikrotik_id, name, allowed_ips, created_at FROM peer_keys\<close>\<close>

record key_status =
  ks_mikrotik_id :: string
  ks_name :: string
  ks_allowed_ips :: string
  ks_created_at :: nat

definition status_of :: "row \<Rightarrow> key_status" where
  "status_of x = \<lparr>ks_mikrotik_id = mikrotik_id x, ks_name = name x,
                  ks_allowed_ips = allowed_ips x, ks_created_at = created_at x\<rparr>"

definition getAllPeersKeyStatus :: "env \<Rightarrow> key_status list io" where
  "getAllPeersKeyStatus env w =
     (case request env SqlSelectAll w of
        (Inl e, w') \<Rightarrow> (Inl e, w')
      | (Inr _, w') \<Rightarrow> (Inr (map status_of (rows w')), w'))"

text \<open>A sequence of mutating store operations, each run whatever the previous one did.\<close>

datatype store_op = Save key_data | Remove string | SetPresharedKey string string

fun store_step :: "env \<Rightarrow> store_op \<Rightarrow> world \<Rightarrow> world" where
  "store_step env (Save d) w = snd (savePeerKeys env d w)"
| "store_step env (Remove i) w = snd (deletePeerKeys env i w)"
| "store_step env (SetPresharedKey i k) w = snd (updatePresharedKey env i k w)"

fun store_run :: "env \<Rightarrow> store_op list \<Rightarrow> world \<Rightarrow> world" where
  "store_run env [] w = w"
| "store_run env (x # xs) w = store_run env xs (store_step env x w)"

text \<open>The \<^verbatim>\<open>UNIQUE\<close> constraint on \<^verbatim>\<open>mikrotik_id\<close>.\<close>

definition unique_ids :: "row list \<Rightarrow> bool" where
  "unique_ids rs = distinct (map mikrotik_id rs)"

subsection \<open>The router client (class MikrotikAPI)\<close>

text \<open>
  \<^verbatim>\<open>connect\<close> returns at once on an open connection; otherwise it opens one and sets
  \<open>isConnected\<close> by the outcome.
\<close>

definition connect :: "env \<Rightarrow> unit io" where
  "connect env w =
     (if isConnected w then (Inr (), w)
      else case request env Connect w of
             (Inl e, w') \<Rightarrow> (Inl e, w'\<lparr>isConnected := False\<rparr>)
           | (Inr _, w') \<Rightarrow> (Inr (), w'\<lparr>isConnected := True\<rparr>))"

definition ensureConnection :: "env \<Rightarrow> unit io" where
  "ensureConnection env w = (if \<not> isConnected w then connect env w else (Inr (), w))"

text \<open>The four \<^verbatim>\<open>conn.write\<close> commands on peers, and the one on interfaces.\<close>

definition write_wg_print :: "env \<Rightarrow> wg_interface list io" where
  "write_wg_print env w =
     (case request env WgPrint w of
        (Inl e, w') \<Rightarrow> (Inl e, w')
      | (Inr _, w') \<Rightarrow> (Inr (wg_interfaces w'), w'))"

definition write_peers_print :: "env \<Rightarrow> peer list io" where
  "write_peers_print env w =
     (case request env PeersPrint w of
        (Inl e, w') \<Rightarrow> (Inl e, w')
      | (Inr _, w') \<Rightarrow> (Inr (peers w'), w'))"

text \<open>
  The fields sent with \<^verbatim>\<open>add\<close> and \<^verbatim>\<open>set\<close>. The command is built as text
  (\<^verbatim>\<open>=key=value\<close>), so every value present is a string; \<open>None\<close> is a key that the
  object does not have.
\<close>

record peer_data =
  pd_interface :: "string option"
  pd_public_key :: "string option"
  pd_allowed_address :: "string option"
  pd_comment :: "string option"
  pd_disabled :: "string option"
  pd_preshared_key :: "string option"

text \<open>
  What the router answers to \<^verbatim>\<open>add\<close>, as \<^verbatim>\<open>createPeer\<close> inspects it: the
  identifier in the property \<^verbatim>\<open>ret\<close>, in the first element of an array, in the
  property \<^verbatim>\<open>.id\<close> or in the property \<^verbatim>\<open>after\<close>, or in none of these.
\<close>

datatype add_reply = Ret string | ArrayId string | DirectId string | After string | Other

definition reply_of :: "reply_shape \<Rightarrow> string \<Rightarrow> add_reply" where
  "reply_of sh i = (case sh of ShapeRet \<Rightarrow> Ret i | ShapeArray \<Rightarrow> ArrayId i
                     | ShapeId \<Rightarrow> DirectId i | ShapeAfter \<Rightarrow> After i | ShapeNone \<Rightarrow> Other)"

definition write_peers_add :: "env \<Rightarrow> peer_data \<Rightarrow> add_reply io" where
  "write_peers_add env d w =
     (let n = length (calls w) in
      case request env PeersAdd w of
        (Inl e, w') \<Rightarrow> (Inl e, w')
      | (Inr _, w') \<Rightarrow>
          (Inr (reply_of (shape env n) (new_id env n)),
           w'\<lparr>peers := peers w' @
                 [\<lparr>peer_id = new_id env n, interface = pd_interface d,
                   public_key = pd_public_key d, allowed_address = pd_allowed_address d,
                   comment = pd_comment d, disabled = pd_disabled d,
                   peer_preshared_key = pd_preshared_key d\<rparr>]\<rparr>))"

definition set_fields :: "peer_data \<Rightarrow> peer \<Rightarrow> peer" where
  "set_fields d p =
     p\<lparr>interface := (case pd_interface d of None \<Rightarrow> interface p | Some v \<Rightarrow> Some v),
       public_key := (case pd_public_key d of None \<Rightarrow> public_key p | Some v \<Rightarrow> Some v),
       allowed_address := (case pd_allowed_address d of None \<Rightarrow> allowed_address p | Some v \<Rightarrow> Some v),
       comment := (case pd_comment d of None \<Rightarrow> comment p | Some v \<Rightarrow> Some v),
       disabled := (case pd_disabled d of None \<Rightarrow> disabled p | Some v \<Rightarrow> Some v),
       peer_preshared_key := (case pd_preshared_key d of None \<Rightarrow> peer_preshared_key p
                              | Some v \<Rightarrow> Some v)\<rparr>"

definition write_peers_set :: "env \<Rightarrow> string \<Rightarrow> peer_data \<Rightarrow> unit io" where
  "write_peers_set env i d w =
     (case request env (PeersSet i) w of
        (Inl e, w') \<Rightarrow> (Inl e, w')
      | (Inr _, w') \<Rightarrow>
          (Inr (), w'\<lparr>peers := map (\<lambda>p. if peer_id p = i then set_fields d p else p) (peers w')\<rparr>))"

definition write_peers_remove :: "env \<Rightarrow> string \<Rightarrow> unit io" where
  "write_peers_remove env i w =
     (case request env (PeersRemove i) w of
        (Inl e, w') \<Rightarrow> (Inl e, w')
      | (Inr _, w') \<Rightarrow> (Inr (), w'\<lparr>peers := filter (\<lambda>p. peer_id p \<noteq> i) (peers w')\<rparr>))"

text \<open>Rethrowing with a prefix: \<^verbatim>\<open>catch (error) { throw new Error(`...: ${error.message}`) }\<close>\<close>

definition rethrow :: "string \<Rightarrow> 'a io \<Rightarrow> 'a io" where
  "rethrow prefix m = try_catch m (\<lambda>e. throw (prefix @ e))"

text \<open>\<^verbatim>\<open>v || await m\<close>, and \<^verbatim>\<open>v || d\<close>: the left operand when it is truthy.\<close>

definition or_else :: "string option \<Rightarrow> string io \<Rightarrow> string io" where
  "or_else v m = (case v of None \<Rightarrow> m | Some s \<Rightarrow> if s \<noteq> [] then return s else m)"

definition js_or :: "string option \<Rightarrow> string \<Rightarrow> string" where
  "js_or v d = (case v of None \<Rightarrow> d | Some s \<Rightarrow> if s \<noteq> [] then s else d)"

text \<open>The value itself when it is truthy, as in \<^verbatim>\<open>if (v) { ... v ... }\<close>.\<close>

definition when_truthy :: "string option \<Rightarrow> string option" where
  "when_truthy v = (if truthy v then v else None)"

text \<open>
  \<^verbatim>\<open>getWireGuardInterface\<close> answers from the cached name when there is one; otherwise
  (\<open>lookupInterface\<close>, the body of its \<^verbatim>\<open>try\<close>) it lists the interfaces, takes the
  configured one, which must exist, or else the first, and caches the name.
\<close>

definition lookupInterface :: "env \<Rightarrow> config \<Rightarrow> string io" where
  "lookupInterface env cfg =
     and_then (ensureConnection env) (\<lambda>_.
     and_then (write_wg_print env) (\<lambda>interfaces.
       case interfaces of
         [] \<Rightarrow> throw ''No WireGuard interfaces found. Please create a WireGuard interface first.''
       | first # _ \<Rightarrow>
           (case when_truthy (mk_interfaceName cfg) of
              Some targetInterface \<Rightarrow>
                (case find (\<lambda>iface. if_name iface = targetInterface) interfaces of
                   None \<Rightarrow> throw (''WireGuard interface '' @ [CHR 0x27] @ targetInterface
                                    @ [CHR 0x27] @ '' not found. Available: ''
                                    @ join '', '' (map if_name interfaces))
                 | Some found \<Rightarrow>
                     (\<lambda>v. (Inr targetInterface,
                            v\<lparr>wireguardInterface := Some targetInterface\<rparr>)))
            | None \<Rightarrow>
                (\<lambda>v. (Inr (if_name first),
                       v\<lparr>wireguardInterface := Some (if_name first)\<rparr>)))))"

definition getWireGuardInterface :: "env \<Rightarrow> config \<Rightarrow> string io" where
  "getWireGuardInterface env cfg w =
     or_else (wireguardInterface w)
       (rethrow ''Failed to get WireGuard interface: '' (lookupInterface env cfg)) w"

definition getPeers :: "env \<Rightarrow> config \<Rightarrow> peer list io" where
  "getPeers env cfg =
     and_then (ensureConnection env) (\<lambda>_.
       try_catch
         (and_then (write_peers_print env) (\<lambda>ps.
          and_then (getWireGuardInterface env cfg) (\<lambda>interfaceName.
            return (filter (\<lambda>p. interface p = Some interfaceName \<or> \<not> truthy (interface p)) ps))))
         (\<lambda>e. if str_includes e ''no such item'' \<or> str_includes e ''not found''
               then return []
               else throw (''Failed to get peers: '' @ e)))"

text \<open>
  \<^verbatim>\<open>createPeer\<close>: the identifier is taken from the reply when the reply has it in one of
  four places; otherwise the peer just created is looked up by public key and comment.
\<close>

definition reply_id :: "add_reply \<Rightarrow> string option" where
  "reply_id r = (case r of Ret i \<Rightarrow> if i \<noteq> [] then Some i else None
                 | ArrayId i \<Rightarrow> if i \<noteq> [] then Some i else None
                 | DirectId i \<Rightarrow> if i \<noteq> [] then Some i else None
                 | After i \<Rightarrow> if i \<noteq> [] then Some i else None
                 | Other \<Rightarrow> None)"

definition createPeer :: "env \<Rightarrow> config \<Rightarrow> peer_data \<Rightarrow> string io" where
  "createPeer env cfg peerData =
     and_then (ensureConnection env) (\<lambda>_.
       rethrow ''Failed to create peer: ''
         (and_then (if \<not> truthy (pd_interface peerData)
                    then and_then (getWireGuardInterface env cfg)
                           (\<lambda>n. return (peerData\<lparr>pd_interface := Some n\<rparr>))
                    else return peerData) (\<lambda>peerData.
          and_then (write_peers_add env peerData) (\<lambda>result.
            case reply_id result of
              Some mikrotikId \<Rightarrow> return mikrotikId
            | None \<Rightarrow>
                and_then (getPeers env cfg) (\<lambda>ps.
                  case find (\<lambda>p. public_key p = pd_public_key peerData
                                   \<and> comment p = pd_comment peerData) ps of
                    Some newPeer \<Rightarrow> return (peer_id newPeer)
                  | None \<Rightarrow> throw ''Failed to get ID for newly created peer'')))))"

definition updatePeer :: "env \<Rightarrow> string \<Rightarrow> peer_data \<Rightarrow> unit io" where
  "updatePeer env i peerData =
     and_then (ensureConnection env) (\<lambda>_.
       rethrow ''Failed to update peer: '' (write_peers_set env i peerData))"

definition deletePeer :: "env \<Rightarrow> string \<Rightarrow> unit io" where
  "deletePeer env i =
     and_then (ensureConnection env) (\<lambda>_.
       rethrow ''Failed to delete peer: '' (write_peers_remove env i))"

text \<open>\<^verbatim>\<open>getServerInfo\<close> returns \<^verbatim>\<open>interfaces[0] || {}\<close>; only its public key is read.\<close>

definition getServerInfo :: "env \<Rightarrow> string option io" where
  "getServerInfo env =
     and_then (ensureConnection env) (\<lambda>_.
       rethrow ''Failed to get server info: ''
         (and_then (write_wg_print env) (\<lambda>interfaces.
            return (case interfaces of [] \<Rightarrow> None | first # _ \<Rightarrow> if_public_key first))))"

subsection \<open>The server module: keys and addresses\<close>

record keys =
  privateKey :: string
  publicKey :: string
  presharedKey :: "string option"

text \<open>
  \<^verbatim>\<open>generateKeys\<close> runs the \<^verbatim>\<open>wg\<close> tool or, failing that, the library fallback.
  Both backends are outside the program: the environment supplies what they produce.
  The preshared key is part of the result only when it was asked for.
\<close>

definition generateKeys :: "env \<Rightarrow> bool \<Rightarrow> keys io" where
  "generateKeys env includePresharedKey w =
     (case keytool env (length (calls w)) of
        None \<Rightarrow> (Inl ''Both WireGuard tools and crypto fallback unavailable'', w)
      | Some (priv, pub, psk) \<Rightarrow>
          (Inr \<lparr>privateKey = priv, publicKey = pub,
                presharedKey = (if includePresharedKey then Some psk else None)\<rparr>, w))"

definition is_base64_char :: "char \<Rightarrow> bool" where
  "is_base64_char c =
     (let n = (of_char c :: nat) in
      (65 \<le> n \<and> n \<le> 90) \<or> (97 \<le> n \<and> n \<le> 122) \<or> (48 \<le> n \<and> n \<le> 57)
      \<or> c = CHR ''+'' \<or> c = CHR ''/'')"

text \<open>Length 44 and the pattern \<^verbatim>\<open>/^[A-Za-z0-9+/]{43}=$/\<close>.\<close>

definition isValidWireGuardKey :: "string option \<Rightarrow> bool" where
  "isValidWireGuardKey key =
     (case key of
        None \<Rightarrow> False
      | Some k \<Rightarrow>
          if k = [] then False
          else if length k \<noteq> 44 then False
          else list_all is_base64_char (take 43 k) \<and> drop 43 k = ''='')"

text \<open>The loop \<^verbatim>\<open>for (let i = 2; i < 255; i++)\<close> of \<^verbatim>\<open>getNextAvailableIP\<close>.\<close>

function scan :: "string \<Rightarrow> string list \<Rightarrow> nat \<Rightarrow> string option" where
  "scan baseIP usedIPs i =
     (if i < 255
      then (let testIP = baseIP @ ''.'' @ show_nat i in
            if testIP \<notin> set usedIPs then Some (testIP @ ''/32'')
            else scan baseIP usedIPs (Suc i))
      else None)"
  by pat_completeness auto
termination
  by (relation "measure (\<lambda>(baseIP, usedIPs, i). 255 - i)") auto

declare scan.simps [simp del]

definition usedIPs_of :: "peer list \<Rightarrow> string list" where
  "usedIPs_of ps =
     filter (\<lambda>ip. ip \<noteq> []) (map (\<lambda>p. before_slash (js_or (allowed_address p) [])) ps)"

definition getNextAvailableIP :: "env \<Rightarrow> config \<Rightarrow> string io" where
  "getNextAvailableIP env cfg =
     rethrow ''Failed to get next available IP: ''
       (and_then (getPeers env cfg) (\<lambda>ps.
          case scan (js_or (clientSubnet cfg) ''172.16.0'') (usedIPs_of ps) 2 of
            Some address \<Rightarrow> return address
          | None \<Rightarrow> throw ''No available IP addresses''))"

subsection \<open>The server module: reconciliation\<close>

fun delete_entries :: "env \<Rightarrow> key_status list \<Rightarrow> unit io" where
  "delete_entries env [] = return ()"
| "delete_entries env (entry # rest) =
     and_then (deletePeerKeys env (ks_mikrotik_id entry)) (\<lambda>_. delete_entries env rest)"

text \<open>
  \<^verbatim>\<open>cleanupOrphanedPeers\<close>: \<open>cleanup_attempt\<close> is the body of its \<^verbatim>\<open>try\<close>; the
  \<^verbatim>\<open>catch\<close> writes the error to the console and returns 0.
\<close>

definition cleanup_attempt :: "env \<Rightarrow> config \<Rightarrow> nat io" where
  "cleanup_attempt env cfg =
     and_then (getPeers env cfg) (\<lambda>mikrotikPeers.
     and_then (getAllPeersKeyStatus env) (\<lambda>storedKeys.
       let activePeerIds = map peer_id mikrotikPeers;
           orphanedEntries =
             filter (\<lambda>stored. ks_mikrotik_id stored \<notin> set activePeerIds) storedKeys
       in and_then (if length orphanedEntries > 0
                    then delete_entries env orphanedEntries else return ())
            (\<lambda>_. return (length orphanedEntries))))"

definition cleanupOrphanedPeers :: "env \<Rightarrow> config \<Rightarrow> nat io" where
  "cleanupOrphanedPeers env cfg =
     try_catch (cleanup_attempt env cfg)
       (\<lambda>error. and_then (log_line (''Error during cleanup: '' @ error)) (\<lambda>_. return 0))"

subsection \<open>The server module: routes\<close>

text \<open>
  The JSON bodies and the responses. Of the peer object returned by create and update,
  the fields with a fixed value (\<^verbatim>\<open>lastHandshake\<close>, \<^verbatim>\<open>transferRx\<close>, \<^verbatim>\<open>transferTx\<close>,
  \<^verbatim>\<open>hasStoredKeys\<close>) are left out.
\<close>

record peer_view =
  v_id :: string
  v_name :: string
  v_publicKey :: "string option"
  v_allowedIPs :: "string option"
  v_enabled :: bool
  v_hasPresharedKey :: bool
  v_newPresharedKey :: "string option"
  v_regenerated :: bool

datatype body =
    ErrorBody string
  | KeysNotFound string "string list"
  | PeerBody peer_view
  | SuccessBody string
  | CleanupBody string nat

datatype response = Json nat body | ConfigFile string string

text \<open>The \<^verbatim>\<open>try { ... } catch (error)\<close> around every route: the error is written to the
  console and answered with status 500 and its message.\<close>

definition respond :: "string \<Rightarrow> response io \<Rightarrow> world \<Rightarrow> response \<times> world" where
  "respond label m w =
     (case m w of
        (Inr r, w') \<Rightarrow> (r, w')
      | (Inl e, w') \<Rightarrow> (Json 500 (ErrorBody e), w'\<lparr>console := console w' @ [label @ e]\<rparr>))"






text \<open>The bodies of the create and update requests, defaults applied.\<close>

record create_request =
  c_name :: "string option"
  c_allowedIPs :: "string option"
  c_usePresharedKey :: bool

record update_request =
  u_name :: "string option"
  u_allowedIPs :: "string option"
  u_enabled :: bool
  u_updatePresharedKey :: bool
  u_regenerateCompletely :: bool

text \<open>
  \<^verbatim>\<open>POST /api/peers\<close>, in three parts. \<open>create_on_router\<close> runs from the interface
  lookup to the check of the identifier that \<^verbatim>\<open>createPeer\<close> returned; it yields the
  keys, the address and the identifier.
\<close>

definition create_on_router ::
  "env \<Rightarrow> config \<Rightarrow> string \<Rightarrow> create_request \<Rightarrow> (keys \<times> string \<times> string) io" where
  "create_on_router env cfg trimmed req =
     and_then (or_else (interfaceName cfg) (getWireGuardInterface env cfg)) (\<lambda>interfaceName.
     and_then (generateKeys env (c_usePresharedKey req)) (\<lambda>keys.
       if \<not> isValidWireGuardKey (Some (publicKey keys))
       then throw ''Generated invalid public key''
       else if truthy (presharedKey keys) \<and> \<not> isValidWireGuardKey (presharedKey keys)
       then throw ''Generated invalid preshared key''
       else
         and_then (or_else (c_allowedIPs req) (getNextAvailableIP env cfg)) (\<lambda>finalAllowedIPs.
         and_then (createPeer env cfg
                     \<lparr>pd_interface = Some interfaceName,
                      pd_public_key = Some (publicKey keys),
                      pd_allowed_address = Some finalAllowedIPs,
                      pd_comment = Some trimmed,
                      pd_disabled = Some ''false'',
                      pd_preshared_key = when_truthy (presharedKey keys)\<rparr>)
           (\<lambda>mikrotikId.
              if mikrotikId = [] then throw ''Failed to get valid MikroTik peer ID''
              else return (keys, finalAllowedIPs, mikrotikId)))))"

text \<open>
  \<open>save_created\<close> is the inner \<^verbatim>\<open>try\<close> that saves the keys and, when that fails,
  deletes the router peer again and throws.
\<close>

definition save_created :: "env \<Rightarrow> string \<Rightarrow> keys \<Rightarrow> string \<Rightarrow> string \<Rightarrow> unit io" where
  "save_created env trimmed keys finalAllowedIPs mikrotikId =
     try_catch
       (and_then (savePeerKeys env
                    \<lparr>kd_mikrotik_id = mikrotikId, kd_name = trimmed,
                     kd_private_key = privateKey keys,
                     kd_preshared_key = when_truthy (presharedKey keys),
                     kd_allowed_ips = Some finalAllowedIPs\<rparr>)
          (\<lambda>_. return ()))
       (\<lambda>dbError.
          and_then (log_line (''Database save error: '' @ dbError)) (\<lambda>_.
          and_then (try_catch (deletePeer env mikrotikId)
                      (\<lambda>cleanupError.
                         log_line (''Failed to cleanup peer after database error: ''
                                   @ cleanupError))) (\<lambda>_.
            throw (''Failed to save peer keys: '' @ dbError))))"

definition create_route :: "env \<Rightarrow> config \<Rightarrow> create_request \<Rightarrow> world \<Rightarrow> response \<times> world" where
  "create_route env cfg req =
     respond ''Error creating peer: ''
       (if \<not> truthy (c_name req) \<or> trim (js_str (c_name req)) = []
        then return (Json 400 (ErrorBody ''Peer name is required''))
        else
          let trimmed = trim (js_str (c_name req)) in
          and_then (create_on_router env cfg trimmed req) (\<lambda>(keys, finalAllowedIPs, mikrotikId).
          and_then (save_created env trimmed keys finalAllowedIPs mikrotikId) (\<lambda>_.
            return (Json 200 (PeerBody
              \<lparr>v_id = mikrotikId, v_name = trimmed, v_publicKey = Some (publicKey keys),
               v_allowedIPs = Some finalAllowedIPs, v_enabled = True,
               v_hasPresharedKey = truthy (presharedKey keys),
               v_newPresharedKey = None, v_regenerated = False\<rparr>)))))"

text \<open>\<^verbatim>\<open>PUT /api/peers/:id\<close>: complete regeneration, or the regular update.\<close>

definition regenerate :: "env \<Rightarrow> config \<Rightarrow> string \<Rightarrow> string \<Rightarrow> update_request \<Rightarrow> response io" where
  "regenerate env cfg i trimmed req =
     and_then (generateKeys env True) (\<lambda>newKeys.
       if \<not> isValidWireGuardKey (Some (publicKey newKeys))
          \<or> \<not> isValidWireGuardKey (presharedKey newKeys)
       then throw ''Generated invalid keys''
       else
         and_then (deletePeer env i) (\<lambda>_.
         and_then (deletePeerKeys env i) (\<lambda>_.
         and_then (or_else (interfaceName cfg) (getWireGuardInterface env cfg)) (\<lambda>interfaceName.
         and_then (createPeer env cfg
                     \<lparr>pd_interface = Some interfaceName,
                      pd_public_key = Some (publicKey newKeys),
                      pd_allowed_address = Some (js_str (u_allowedIPs req)),
                      pd_comment = Some trimmed,
                      pd_disabled = Some (if u_enabled req then ''false'' else ''true''),
                      pd_preshared_key = Some (js_str (presharedKey newKeys))\<rparr>) (\<lambda>newId.
         and_then (savePeerKeys env
                     \<lparr>kd_mikrotik_id = newId, kd_name = trimmed,
                      kd_private_key = privateKey newKeys,
                      kd_preshared_key = presharedKey newKeys,
                      kd_allowed_ips = u_allowedIPs req\<rparr>) (\<lambda>_.
           return (Json 200 (PeerBody
             \<lparr>v_id = newId, v_name = trimmed, v_publicKey = Some (publicKey newKeys),
              v_allowedIPs = u_allowedIPs req, v_enabled = u_enabled req,
              v_hasPresharedKey = True, v_newPresharedKey = None,
              v_regenerated = True\<rparr>))))))))"

definition regular_update :: "env \<Rightarrow> string \<Rightarrow> string \<Rightarrow> update_request \<Rightarrow> response io" where
  "regular_update env i trimmed req =
     (let updateData = \<lparr>pd_interface = None, pd_public_key = None,
                         pd_allowed_address = Some (js_str (u_allowedIPs req)),
                         pd_comment = Some trimmed,
                         pd_disabled = Some (if u_enabled req then ''false'' else ''true''),
                         pd_preshared_key = None\<rparr>
      in and_then
           (if u_updatePresharedKey req
            then and_then (generateKeys env True) (\<lambda>generated.
                   if \<not> isValidWireGuardKey (presharedKey generated)
                   then throw ''Generated invalid preshared key''
                   else and_then (updatePresharedKey env i (js_str (presharedKey generated)))
                          (\<lambda>_. return (updateData\<lparr>pd_preshared_key := presharedKey generated\<rparr>,
                                        presharedKey generated)))
            else return (updateData, None))
           (\<lambda>(updateData, newPresharedKey).
              and_then (updatePeer env i updateData) (\<lambda>_.
                return (Json 200 (PeerBody
                  \<lparr>v_id = i, v_name = trimmed, v_publicKey = None,
                   v_allowedIPs = u_allowedIPs req, v_enabled = u_enabled req,
                   v_hasPresharedKey = truthy newPresharedKey,
                   v_newPresharedKey = newPresharedKey, v_regenerated = False\<rparr>)))))"

definition update_route ::
  "env \<Rightarrow> config \<Rightarrow> string \<Rightarrow> update_request \<Rightarrow> world \<Rightarrow> response \<times> world" where
  "update_route env cfg i req =
     respond ''Error updating peer: ''
       (if \<not> truthy (u_name req) \<or> trim (js_str (u_name req)) = []
        then return (Json 400 (ErrorBody ''Peer name is required''))
        else if u_regenerateCompletely req
        then regenerate env cfg i (trim (js_str (u_name req))) req
        else regular_update env i (trim (js_str (u_name req))) req)"

text \<open>\<^verbatim>\<open>DELETE /api/peers/:id\<close>\<close>

definition delete_route :: "env \<Rightarrow> string \<Rightarrow> world \<Rightarrow> response \<times> world" where
  "delete_route env i =
     respond ''Error deleting peer: ''
       (and_then (try_catch (deletePeer env i)
                    (\<lambda>mikrotikError.
                       log_line (''Failed to delete peer from MikroTik (may already be deleted): ''
                                 @ mikrotikError))) (\<lambda>_.
        and_then (deletePeerKeys env i) (\<lambda>_.
          return (Json 200 (SuccessBody ''Peer deleted (including orphaned data if any)'')))))"

subsection \<open>Notions used in the statements\<close>

text \<open>The row that a successful \<^verbatim>\<open>savePeerKeys\<close> leaves in the table.\<close>

definition stored_row :: "env \<Rightarrow> key_data \<Rightarrow> string \<Rightarrow> world \<Rightarrow> row" where
  "stored_row env d a w =
     \<lparr>rowid = Suc (lastID w), mikrotik_id = kd_mikrotik_id d, name = kd_name d,
      private_key = kd_private_key d, preshared_key = kd_preshared_key d, allowed_ips = a,
      created_at = timestamp env (length (calls w)),
      updated_at = timestamp env (length (calls w))\<rparr>"

text \<open>
  Frame conditions: an action \<open>preserves\<close> a relation between the world before and
  after when every run of it does. The relations used are reflexive and transitive.
\<close>

definition preserves :: "(world \<Rightarrow> world \<Rightarrow> bool) \<Rightarrow> 'a io \<Rightarrow> bool" where
  "preserves R m = (\<forall>w r w'. m w = (r, w') \<longrightarrow> R w w')"

definition frame :: "(world \<Rightarrow> world \<Rightarrow> bool) \<Rightarrow> bool" where
  "frame R = ((\<forall>w. R w w) \<and> (\<forall>a b c. R a b \<longrightarrow> R b c \<longrightarrow> R a c))"

definition same_store :: "world \<Rightarrow> world \<Rightarrow> bool" where
  "same_store w w' = (rows w' = rows w \<and> lastID w' = lastID w)"

definition same_router :: "world \<Rightarrow> world \<Rightarrow> bool" where
  "same_router w w' = (peers w' = peers w \<and> wg_interfaces w' = wg_interfaces w)"

definition same_console :: "world \<Rightarrow> world \<Rightarrow> bool" where
  "same_console w w' = (console w' = console w)"

definition stays_connected :: "world \<Rightarrow> world \<Rightarrow> bool" where
  "stays_connected w w' = (isConnected w \<longrightarrow> isConnected w')"

subsection \<open>Example worlds and notions of the runs\<close>

text \<open>
  An environment in which no request fails, the key tool produces well-formed keys and
  the router reports the identifier \<^verbatim>\<open>*A\<close> for an added peer; and a world with an
  empty router, an empty store and no connection.
\<close>

definition calm :: env where
  "calm = \<lparr>fault = (\<lambda>n c. None),
           keytool = (\<lambda>n. Some (''cHJpdmF0ZWtleXByaXZhdGVrZXlwcml2YXRla2V5MDE='',
                                 ''cHVibGlja2V5cHVibGlja2V5cHVibGlja2V5MDEyMzQ='',
                                 ''c2hhcmVka2V5c2hhcmVka2V5c2hhcmVka2V5MDEyMzQ='')),
           new_id = (\<lambda>n. ''*A''),
           shape = (\<lambda>n. ShapeRet),
           timestamp = (\<lambda>n. n)\<rparr>"

definition blank :: world where
  "blank = \<lparr>peers = [], wg_interfaces = [\<lparr>if_name = ''wg0'', if_public_key = Some ''S''\<rparr>],
            isConnected = False, wireguardInterface = None,
            rows = [], lastID = 0, calls = [], console = []\<rparr>"

definition example_config :: config where
  "example_config = \<lparr>interfaceName = Some ''wg0'', clientSubnet = None,
                     serverEndpoint = ''host:51820'', allowedIPs = ''0.0.0.0/0'',
                     mk_interfaceName = None\<rparr>"

definition custody_row :: "nat \<Rightarrow> string \<Rightarrow> string \<Rightarrow> row" where
  "custody_row n i nm =
     \<lparr>rowid = n, mikrotik_id = i, name = nm, private_key = ''P'',
      preshared_key = Some ''K'', allowed_ips = ''172.16.0.5/32'',
      created_at = 0, updated_at = 0\<rparr>"

definition router_peer :: "string \<Rightarrow> string \<Rightarrow> peer" where
  "router_peer i a =
     \<lparr>peer_id = i, interface = Some ''wg0'', public_key = Some ''pub'',
      allowed_address = Some a, comment = Some ''peer'', disabled = Some ''false'',
      peer_preshared_key = None\<rparr>"

definition router_down :: env where
  "router_down = calm\<lparr>fault := (\<lambda>n c. if c = PeersRemove ''*1'' then Some ''no such item'' else None)\<rparr>"

definition delete_example :: world where
  "delete_example = blank\<lparr>rows := [custody_row 1 ''*1'' ''A'']\<rparr>"

text \<open>
  The router answers the requests with which the client connects and reads its tables.
\<close>

definition router_answers :: "env \<Rightarrow> bool" where
  "router_answers env =
     (\<forall>n. fault env n Connect = None \<and> fault env n WgPrint = None
          \<and> fault env n PeersPrint = None)"

text \<open>
  The interface name on which \<^verbatim>\<open>getWireGuardInterface\<close> settles when the router
  answers: the cached name when there is one; otherwise the configured interface, which
  must be in the router's list, or else the first interface of the list.
\<close>

definition resolved_interface :: "config \<Rightarrow> world \<Rightarrow> string option" where
  "resolved_interface cfg w =
     (case when_truthy (wireguardInterface w) of
        Some cached \<Rightarrow> Some cached
      | None \<Rightarrow>
          (case wg_interfaces w of
             [] \<Rightarrow> None
           | first # _ \<Rightarrow>
               (case when_truthy (mk_interfaceName cfg) of
                  Some targetInterface \<Rightarrow>
                    if targetInterface \<in> if_name ` set (wg_interfaces w)
                    then Some targetInterface else None
                | None \<Rightarrow> Some (if_name first))))"

text \<open>
  The peers that \<^verbatim>\<open>getPeers\<close> keeps for the interface \<open>n\<close>: those bound to it and
  those without an interface.
\<close>

definition on_interface :: "string \<Rightarrow> peer \<Rightarrow> bool" where
  "on_interface n p = (interface p = Some n \<or> \<not> truthy (interface p))"

text \<open>
  A step that reads only: the tables of the router, the custody store and the console
  are as before, and the client settles on the same interface.
\<close>

definition reads_only :: "config \<Rightarrow> world \<Rightarrow> world \<Rightarrow> bool" where
  "reads_only cfg w w' =
     (peers w' = peers w \<and> wg_interfaces w' = wg_interfaces w \<and> rows w' = rows w
      \<and> lastID w' = lastID w \<and> console w' = console w
      \<and> resolved_interface cfg w' = resolved_interface cfg w)"

text \<open>The example of the specification: records A and B, router peer 1.\<close>

definition reconcile_example :: world where
  "reconcile_example =
     blank\<lparr>peers := [router_peer ''1'' ''172.16.0.2/32''],
           rows := [custody_row 1 ''1'' ''A'', custody_row 2 ''2'' ''B''], lastID := 2\<rparr>"

text \<open>
  A router on which the listing of the peers fails with \<^verbatim>\<open>no such item\<close>, and a router
  with two interfaces whose only peer is bound to the second.
\<close>

definition no_such_item :: env where
  "no_such_item = calm\<lparr>fault := (\<lambda>n c. if c = PeersPrint then Some ''no such item'' else None)\<rparr>"

definition second_interface :: world where
  "second_interface =
     reconcile_example
       \<lparr>wg_interfaces := [\<lparr>if_name = ''wg0'', if_public_key = Some ''S''\<rparr>,
                          \<lparr>if_name = ''wg1'', if_public_key = Some ''T''\<rparr>],
        peers := [(router_peer ''1'' ''172.16.0.2/32'')\<lparr>interface := Some ''wg1''\<rparr>]\<rparr>"





text \<open>The address tried at host index \<open>j\<close>.\<close>

definition candidate :: "string \<Rightarrow> nat \<Rightarrow> string" where
  "candidate baseIP j = baseIP @ ''.'' @ show_nat j"

text \<open>
  What the specification means by an address in use: \<open>ip\<close> is assigned to a peer when
  the peer's allowed address is \<open>ip\<close> itself or \<open>ip\<close> followed by a slash and a mask,
  where \<open>ip\<close> is not empty and has no slash. It is in use when it is assigned to one of
  the peers.
\<close>

definition assigned_to :: "peer \<Rightarrow> string \<Rightarrow> bool" where
  "assigned_to p ip =
     (case allowed_address p of
        None \<Rightarrow> False
      | Some a \<Rightarrow> ip \<noteq> [] \<and> CHR ''/'' \<notin> set ip
                  \<and> (a = ip \<or> take (Suc (length ip)) a = ip @ ''/''))"

definition in_use :: "peer list \<Rightarrow> string \<Rightarrow> bool" where
  "in_use ps ip = list_ex (\<lambda>p. assigned_to p ip) ps"

text \<open>
  The router of the allocation example: nine peers on 172.16.0.2 to 172.16.0.10, their
  addresses written with the mask /32, with another mask or with none.
\<close>

definition allocation_example :: world where
  "allocation_example =
     blank\<lparr>peers := [router_peer ''*2'' ''172.16.0.2/32'', router_peer ''*3'' ''172.16.0.3/24'',
                      router_peer ''*4'' ''172.16.0.4'', router_peer ''*5'' ''172.16.0.5/8'',
                      router_peer ''*6'' ''172.16.0.6/32'', router_peer ''*7'' ''172.16.0.7/255.255.255.0'',
                      router_peer ''*8'' ''172.16.0.8/32'', router_peer ''*9'' ''172.16.0.9/32'',
                      router_peer ''*10'' ''172.16.0.10/32'']\<rparr>"

text \<open>The example of a preshared-key rotation: peer \<^verbatim>\<open>*1\<close> on the router and in the store.\<close>

definition update_example :: world where
  "update_example = blank\<lparr>peers := [router_peer ''*1'' ''172.16.0.5/32''],
                          rows := [custody_row 1 ''*1'' ''laptop''], lastID := 1\<rparr>"

definition rotate_request :: update_request where
  "rotate_request = \<lparr>u_name = Some ''laptop'', u_allowedIPs = Some ''172.16.0.5/32'',
                     u_enabled = True, u_updatePresharedKey = True,
                     u_regenerateCompletely = False\<rparr>"

definition push_fails :: env where
  "push_fails = calm\<lparr>fault := (\<lambda>n c. if c = PeersSet ''*1'' then Some ''timeout'' else None)\<rparr>"

definition custody_fails :: env where
  "custody_fails = calm\<lparr>fault := (\<lambda>n c. if c = SqlUpdate ''*1'' then Some ''SQLITE_IOERR'' else None)\<rparr>"

text \<open>The fields that the regular update sends to the router.\<close>

definition update_data :: "string \<Rightarrow> update_request \<Rightarrow> string option \<Rightarrow> peer_data" where
  "update_data trimmed req k =
     \<lparr>pd_interface = None, pd_public_key = None,
      pd_allowed_address = Some (js_str (u_allowedIPs req)),
      pd_comment = Some trimmed,
      pd_disabled = Some (if u_enabled req then ''false'' else ''true''),
      pd_preshared_key = k\<rparr>"

text \<open>The example of a failed create: the save fails, and in \<open>cleanup_fails\<close> so does
  the compensating delete.\<close>

definition save_fails :: env where
  "save_fails = calm\<lparr>fault := (\<lambda>n c. if c = SqlInsert ''*A'' then Some ''disk full'' else None)\<rparr>"

definition cleanup_fails :: env where
  "cleanup_fails = calm\<lparr>fault := (\<lambda>n c. if c = SqlInsert ''*A'' then Some ''disk full''
                                         else if c = PeersRemove ''*A'' then Some ''timeout''
                                         else None)\<rparr>"

definition laptop_request :: create_request where
  "laptop_request = \<lparr>c_name = Some ''laptop'', c_allowedIPs = None, c_usePresharedKey = True\<rparr>"

text \<open>The answer of a successful create.\<close>

definition created_view :: "string \<Rightarrow> keys \<Rightarrow> string \<Rightarrow> string \<Rightarrow> peer_view" where
  "created_view trimmed ks finalAllowedIPs mikrotikId =
     \<lparr>v_id = mikrotikId, v_name = trimmed, v_publicKey = Some (publicKey ks),
      v_allowedIPs = Some finalAllowedIPs, v_enabled = True,
      v_hasPresharedKey = truthy (presharedKey ks),
      v_newPresharedKey = None, v_regenerated = False\<rparr>"




section \<open>Properties\<close>

subsection \<open>The custody store keeps one record per router identifier\<close>

lemma unique_ids_filter: "unique_ids rs \<Longrightarrow> unique_ids (filter P rs)"
  by (simp add: unique_ids_def distinct_map_filter)

lemma unique_ids_replace:
  "unique_ids rs \<Longrightarrow> mikrotik_id r = i \<Longrightarrow>
   unique_ids (filter (\<lambda>x. mikrotik_id x \<noteq> i) rs @ [r])"
  by (auto simp: unique_ids_def distinct_map_filter)

lemma map_id_update:
  "map mikrotik_id (map (\<lambda>x. if P x then x\<lparr>preshared_key := k, updated_at := t\<rparr> else x) rs)
   = map mikrotik_id rs"
  by (induction rs) auto

lemma unique_ids_update:
  "unique_ids rs \<Longrightarrow>
   unique_ids (map (\<lambda>x. if P x then x\<lparr>preshared_key := k, updated_at := t\<rparr> else x) rs)"
  unfolding unique_ids_def by (simp only: map_id_update)

lemma savePeerKeys_unique: "unique_ids (rows w) \<Longrightarrow> unique_ids (rows (snd (savePeerKeys env d w)))"
  by (auto simp: savePeerKeys_def request_def Let_def unique_ids_replace split: option.splits)

lemma deletePeerKeys_unique: "unique_ids (rows w) \<Longrightarrow> unique_ids (rows (snd (deletePeerKeys env i w)))"
  by (auto simp: deletePeerKeys_def request_def Let_def unique_ids_filter split: option.splits)

lemma updatePresharedKey_unique:
  "unique_ids (rows w) \<Longrightarrow> unique_ids (rows (snd (updatePresharedKey env i k w)))"
  by (auto simp: updatePresharedKey_def request_def Let_def unique_ids_update split: option.splits)

lemma store_step_unique: "unique_ids (rows w) \<Longrightarrow> unique_ids (rows (store_step env x w))"
  by (cases x) (simp_all add: savePeerKeys_unique deletePeerKeys_unique updatePresharedKey_unique)

lemma store_run_unique: "unique_ids (rows w) \<Longrightarrow> unique_ids (rows (store_run env xs w))"
  by (induction xs arbitrary: w) (simp_all add: store_step_unique)

lemma unique_ids_count: "unique_ids rs \<Longrightarrow> length (filter (\<lambda>x. mikrotik_id x = i) rs) \<le> 1"
proof (induction rs)
  case Nil
  then show ?case by simp
next
  case (Cons r rs)
  from Cons.prems have fresh: "mikrotik_id r \<notin> mikrotik_id ` set rs" and rest: "unique_ids rs"
    by (simp_all add: unique_ids_def)
  show ?case
  proof (cases "mikrotik_id r = i")
    case True
    with fresh have "\<forall>x\<in>set rs. mikrotik_id x \<noteq> i" by blast
    then have "filter (\<lambda>x. mikrotik_id x = i) rs = []" by (simp add: filter_empty_conv)
    with True show ?thesis by simp
  next
    case False
    with Cons.IH [OF rest] show ?thesis by simp
  qed
qed

lemma length_filter_other:
  "unique_ids rs \<Longrightarrow> i \<in> mikrotik_id ` set rs \<Longrightarrow>
   Suc (length (filter (\<lambda>x. mikrotik_id x \<noteq> i) rs)) = length rs"
proof (induction rs)
  case Nil
  then show ?case by simp
next
  case (Cons r rs)
  show ?case
  proof (cases "mikrotik_id r = i")
    case True
    with Cons.prems have "i \<notin> mikrotik_id ` set rs" by (auto simp: unique_ids_def)
    then have "filter (\<lambda>x. mikrotik_id x \<noteq> i) rs = rs"
      by (auto simp: filter_id_conv)
    with True show ?thesis by simp
  next
    case False
    with Cons show ?thesis by (auto simp: unique_ids_def)
  qed
qed

text \<open>
  Claim C10. \<^verbatim>\<open>savePeerKeys\<close> is an upsert. Take a table that obeys the uniqueness
  of \<^verbatim>\<open>mikrotik_id\<close>, as the empty table does. A save for an identifier that already
  has a row, when the database accepts the statement, does not fail on the existing
  row: it resolves, leaves exactly one row for that identifier, carrying the new name,
  keys, address and timestamps, leaves every other row as it was and does not change
  the number of rows. And after any sequence of saves, deletes and preshared-key
  updates, whether they fail or not, the table has at most one row per identifier.
\<close>

theorem savePeerKeys_upsert:
  assumes uniq: "unique_ids (rows w)"
  shows "(kd_mikrotik_id d \<in> mikrotik_id ` set (rows w) \<and>
          fault env (length (calls w)) (SqlInsert (kd_mikrotik_id d)) = None \<and>
          kd_allowed_ips d = Some a \<longrightarrow>
            fst (savePeerKeys env d w) = Inr (Suc (lastID w)) \<and>
            filter (\<lambda>x. mikrotik_id x = kd_mikrotik_id d) (rows (snd (savePeerKeys env d w)))
              = [stored_row env d a w] \<and>
            filter (\<lambda>x. mikrotik_id x \<noteq> kd_mikrotik_id d) (rows (snd (savePeerKeys env d w)))
              = filter (\<lambda>x. mikrotik_id x \<noteq> kd_mikrotik_id d) (rows w) \<and>
            length (rows (snd (savePeerKeys env d w))) = length (rows w)) \<and>
         (\<forall>ops i. length (filter (\<lambda>x. mikrotik_id x = i) (rows (store_run env ops w))) \<le> 1)"
proof (intro conjI impI)
  assume pre: "kd_mikrotik_id d \<in> mikrotik_id ` set (rows w) \<and>
          fault env (length (calls w)) (SqlInsert (kd_mikrotik_id d)) = None \<and>
          kd_allowed_ips d = Some a"
  then have res: "savePeerKeys env d w =
      (Inr (Suc (lastID w)),
       w\<lparr>calls := calls w @ [SqlInsert (kd_mikrotik_id d)],
         rows := filter (\<lambda>x. mikrotik_id x \<noteq> kd_mikrotik_id d) (rows w) @ [stored_row env d a w],
         lastID := Suc (lastID w)\<rparr>)"
    by (simp add: savePeerKeys_def request_def Let_def stored_row_def)
  from pre have present: "kd_mikrotik_id d \<in> mikrotik_id ` set (rows w)" by blast
  have len: "length (rows (snd (savePeerKeys env d w))) = length (rows w)"
    using length_filter_other [OF uniq present] by (simp add: res)
  show "fst (savePeerKeys env d w) = Inr (Suc (lastID w))"
    by (simp add: res)
  show "filter (\<lambda>x. mikrotik_id x = kd_mikrotik_id d) (rows (snd (savePeerKeys env d w)))
          = [stored_row env d a w]"
    by (simp add: res stored_row_def)
  show "filter (\<lambda>x. mikrotik_id x \<noteq> kd_mikrotik_id d) (rows (snd (savePeerKeys env d w)))
          = filter (\<lambda>x. mikrotik_id x \<noteq> kd_mikrotik_id d) (rows w)"
    by (simp add: res stored_row_def)
  show "length (rows (snd (savePeerKeys env d w))) = length (rows w)"
    by (rule len)
next
  show "\<forall>ops i. length (filter (\<lambda>x. mikrotik_id x = i) (rows (store_run env ops w))) \<le> 1"
    using unique_ids_count [OF store_run_unique [OF uniq]] by blast
qed

theorem savePeerKeys_upsert_witness:
  "unique_ids (rows (blank\<lparr>rows := [custody_row 1 ''*1'' ''A''], lastID := 1\<rparr>)) \<and>
   ''*1'' \<in> mikrotik_id ` set (rows (blank\<lparr>rows := [custody_row 1 ''*1'' ''A''], lastID := 1\<rparr>)) \<and>
   rows (snd (savePeerKeys calm
        \<lparr>kd_mikrotik_id = ''*1'', kd_name = ''B'', kd_private_key = ''P2'',
         kd_preshared_key = None, kd_allowed_ips = Some ''172.16.0.6/32''\<rparr>
        (blank\<lparr>rows := [custody_row 1 ''*1'' ''A''], lastID := 1\<rparr>)))
     = [\<lparr>rowid = 2, mikrotik_id = ''*1'', name = ''B'', private_key = ''P2'',
         preshared_key = None, allowed_ips = ''172.16.0.6/32'',
         created_at = 0, updated_at = 0\<rparr>]"
proof -
  have uniq: "unique_ids (rows (blank\<lparr>rows := [custody_row 1 ''*1'' ''A''], lastID := 1\<rparr>))"
    by (simp add: unique_ids_def)
  show ?thesis
    using savePeerKeys_upsert [OF uniq, of
      "\<lparr>kd_mikrotik_id = ''*1'', kd_name = ''B'', kd_private_key = ''P2'',
        kd_preshared_key = None, kd_allowed_ips = Some ''172.16.0.6/32''\<rparr>"
      calm "''172.16.0.6/32''"]
    by (simp add: unique_ids_def blank_def calm_def custody_row_def savePeerKeys_def
        request_def stored_row_def)
qed

subsection \<open>What each action leaves alone\<close>

lemma frame_same_store: "frame same_store" by (simp add: frame_def same_store_def)
lemma frame_same_router: "frame same_router" by (simp add: frame_def same_router_def)
lemma frame_same_console: "frame same_console" by (simp add: frame_def same_console_def)
lemma frame_stays_connected: "frame stays_connected" by (simp add: frame_def stays_connected_def)

lemma preservesD: "preserves R m \<Longrightarrow> m w = (r, w') \<Longrightarrow> R w w'"
  by (simp add: preserves_def)

lemma preserves_return: "frame R \<Longrightarrow> preserves R (return a)"
  by (simp add: preserves_def return_def frame_def)

lemma preserves_throw: "frame R \<Longrightarrow> preserves R (throw e)"
  by (simp add: preserves_def throw_def frame_def)

lemma preserves_and_then:
  assumes "frame R" "preserves R m" "\<And>a. preserves R (f a)"
  shows "preserves R (and_then m f)"
  unfolding preserves_def
proof (intro allI impI)
  fix w r w' assume run: "and_then m f w = (r, w')"
  obtain r1 w1 where m: "m w = (r1, w1)" by (cases "m w")
  then have R1: "R w w1" using assms(2) by (simp add: preserves_def)
  show "R w w'"
  proof (cases r1)
    case (Inl e)
    with run m have "w' = w1" by (simp add: and_then_def)
    with R1 show ?thesis by simp
  next
    case (Inr a)
    with run m have "f a w1 = (r, w')" by (simp add: and_then_def)
    then have "R w1 w'" using assms(3) by (simp add: preserves_def)
    with R1 assms(1) show ?thesis unfolding frame_def by blast
  qed
qed

lemma preserves_try_catch:
  assumes "frame R" "preserves R m" "\<And>e. preserves R (h e)"
  shows "preserves R (try_catch m h)"
  unfolding preserves_def
proof (intro allI impI)
  fix w r w' assume run: "try_catch m h w = (r, w')"
  obtain r1 w1 where m: "m w = (r1, w1)" by (cases "m w")
  then have R1: "R w w1" using assms(2) by (simp add: preserves_def)
  show "R w w'"
  proof (cases r1)
    case (Inr a)
    with run m have "w' = w1" by (simp add: try_catch_def)
    with R1 show ?thesis by simp
  next
    case (Inl e)
    with run m have "h e w1 = (r, w')" by (simp add: try_catch_def)
    then have "R w1 w'" using assms(3) by (simp add: preserves_def)
    with R1 assms(1) show ?thesis unfolding frame_def by blast
  qed
qed

lemma preserves_rethrow: "frame R \<Longrightarrow> preserves R m \<Longrightarrow> preserves R (rethrow p m)"
  unfolding rethrow_def by (rule preserves_try_catch) (simp_all add: preserves_throw)

lemma preserves_or_else: "frame R \<Longrightarrow> preserves R m \<Longrightarrow> preserves R (or_else v m)"
  by (simp add: or_else_def preserves_return split: option.splits)

lemma preserves_if: "preserves R a \<Longrightarrow> preserves R b \<Longrightarrow> preserves R (if c then a else b)"
  by simp

text \<open>An external request and the connection leave everything else alone.\<close>

lemma request_store: "preserves same_store (request env c)"
  by (auto simp: preserves_def same_store_def request_def Let_def split: option.splits)
lemma request_router: "preserves same_router (request env c)"
  by (auto simp: preserves_def same_router_def request_def Let_def split: option.splits)
lemma request_console: "preserves same_console (request env c)"
  by (auto simp: preserves_def same_console_def request_def Let_def split: option.splits)
lemma request_connected: "preserves stays_connected (request env c)"
  by (auto simp: preserves_def stays_connected_def request_def Let_def split: option.splits)

lemma connect_store: "preserves same_store (connect env)"
  by (auto simp: preserves_def same_store_def connect_def request_def Let_def split: option.splits)
lemma connect_router: "preserves same_router (connect env)"
  by (auto simp: preserves_def same_router_def connect_def request_def Let_def split: option.splits)
lemma connect_console: "preserves same_console (connect env)"
  by (auto simp: preserves_def same_console_def connect_def request_def Let_def split: option.splits)
lemma connect_connected: "preserves stays_connected (connect env)"
  by (auto simp: preserves_def stays_connected_def connect_def request_def Let_def split: option.splits)

lemma ensureConnection_store: "preserves same_store (ensureConnection env)"
  using connect_store by (auto simp: preserves_def ensureConnection_def same_store_def)
lemma ensureConnection_router: "preserves same_router (ensureConnection env)"
  using connect_router by (auto simp: preserves_def ensureConnection_def same_router_def)
lemma ensureConnection_console: "preserves same_console (ensureConnection env)"
  using connect_console by (auto simp: preserves_def ensureConnection_def same_console_def)
lemma ensureConnection_connected: "preserves stays_connected (ensureConnection env)"
  using connect_connected by (auto simp: preserves_def ensureConnection_def stays_connected_def)

lemma ensureConnection_Inr: "ensureConnection env w = (Inr u, w') \<Longrightarrow> isConnected w'"
  by (auto simp: ensureConnection_def connect_def request_def Let_def split: if_splits option.splits)

lemmas frames = frame_same_store frame_same_router frame_same_console frame_stays_connected

lemmas preserves_intros = preserves_and_then preserves_try_catch preserves_rethrow
  preserves_or_else preserves_return preserves_throw

lemma log_line_store: "preserves same_store (log_line s)"
  by (simp add: preserves_def same_store_def log_line_def)
lemma log_line_router: "preserves same_router (log_line s)"
  by (simp add: preserves_def same_router_def log_line_def)
lemma log_line_connected: "preserves stays_connected (log_line s)"
  by (simp add: preserves_def stays_connected_def log_line_def)

lemma generateKeys_id: "generateKeys env b w = (r, w') \<Longrightarrow> w' = w"
  by (auto simp: generateKeys_def split: option.splits prod.splits)

lemma generateKeys_preserves: "frame R \<Longrightarrow> preserves R (generateKeys env b)"
  by (auto simp: preserves_def frame_def dest: generateKeys_id)

text \<open>The router commands leave the store and the console alone.\<close>

lemma write_wg_print_store: "preserves same_store (write_wg_print env)"
  by (auto simp: preserves_def same_store_def write_wg_print_def request_def Let_def split: option.splits)
lemma write_wg_print_router: "preserves same_router (write_wg_print env)"
  by (auto simp: preserves_def same_router_def write_wg_print_def request_def Let_def split: option.splits)
lemma write_wg_print_console: "preserves same_console (write_wg_print env)"
  by (auto simp: preserves_def same_console_def write_wg_print_def request_def Let_def split: option.splits)
lemma write_wg_print_connected: "preserves stays_connected (write_wg_print env)"
  by (auto simp: preserves_def stays_connected_def write_wg_print_def request_def Let_def split: option.splits)

lemma write_peers_print_store: "preserves same_store (write_peers_print env)"
  by (auto simp: preserves_def same_store_def write_peers_print_def request_def Let_def split: option.splits)
lemma write_peers_print_router: "preserves same_router (write_peers_print env)"
  by (auto simp: preserves_def same_router_def write_peers_print_def request_def Let_def split: option.splits)
lemma write_peers_print_console: "preserves same_console (write_peers_print env)"
  by (auto simp: preserves_def same_console_def write_peers_print_def request_def Let_def split: option.splits)
lemma write_peers_print_connected: "preserves stays_connected (write_peers_print env)"
  by (auto simp: preserves_def stays_connected_def write_peers_print_def request_def Let_def split: option.splits)

lemma write_peers_add_store: "preserves same_store (write_peers_add env d)"
  by (auto simp: preserves_def same_store_def write_peers_add_def request_def Let_def split: option.splits)
lemma write_peers_add_console: "preserves same_console (write_peers_add env d)"
  by (auto simp: preserves_def same_console_def write_peers_add_def request_def Let_def split: option.splits)
lemma write_peers_add_connected: "preserves stays_connected (write_peers_add env d)"
  by (auto simp: preserves_def stays_connected_def write_peers_add_def request_def Let_def split: option.splits)

lemma write_peers_set_store: "preserves same_store (write_peers_set env i d)"
  by (auto simp: preserves_def same_store_def write_peers_set_def request_def Let_def split: option.splits)
lemma write_peers_set_console: "preserves same_console (write_peers_set env i d)"
  by (auto simp: preserves_def same_console_def write_peers_set_def request_def Let_def split: option.splits)
lemma write_peers_set_connected: "preserves stays_connected (write_peers_set env i d)"
  by (auto simp: preserves_def stays_connected_def write_peers_set_def request_def Let_def split: option.splits)

lemma write_peers_remove_store: "preserves same_store (write_peers_remove env i)"
  by (auto simp: preserves_def same_store_def write_peers_remove_def request_def Let_def split: option.splits)
lemma write_peers_remove_console: "preserves same_console (write_peers_remove env i)"
  by (auto simp: preserves_def same_console_def write_peers_remove_def request_def Let_def split: option.splits)
lemma write_peers_remove_connected: "preserves stays_connected (write_peers_remove env i)"
  by (auto simp: preserves_def stays_connected_def write_peers_remove_def request_def Let_def split: option.splits)

text \<open>The store statements leave the router and the console alone.\<close>

lemma savePeerKeys_router: "preserves same_router (savePeerKeys env d)"
  by (auto simp: preserves_def same_router_def savePeerKeys_def request_def Let_def split: option.splits)
lemma savePeerKeys_console: "preserves same_console (savePeerKeys env d)"
  by (auto simp: preserves_def same_console_def savePeerKeys_def request_def Let_def split: option.splits)
lemma savePeerKeys_connected: "preserves stays_connected (savePeerKeys env d)"
  by (auto simp: preserves_def stays_connected_def savePeerKeys_def request_def Let_def split: option.splits)

lemma deletePeerKeys_router: "preserves same_router (deletePeerKeys env i)"
  by (auto simp: preserves_def same_router_def deletePeerKeys_def request_def Let_def split: option.splits)
lemma deletePeerKeys_connected: "preserves stays_connected (deletePeerKeys env i)"
  by (auto simp: preserves_def stays_connected_def deletePeerKeys_def request_def Let_def split: option.splits)

lemma updatePresharedKey_router: "preserves same_router (updatePresharedKey env i k)"
  by (auto simp: preserves_def same_router_def updatePresharedKey_def request_def Let_def split: option.splits)
lemma updatePresharedKey_console: "preserves same_console (updatePresharedKey env i k)"
  by (auto simp: preserves_def same_console_def updatePresharedKey_def request_def Let_def split: option.splits)

lemma getAllPeersKeyStatus_router: "preserves same_router (getAllPeersKeyStatus env)"
  by (auto simp: preserves_def same_router_def getAllPeersKeyStatus_def request_def Let_def split: option.splits)
lemma getAllPeersKeyStatus_store: "preserves same_store (getAllPeersKeyStatus env)"
  by (auto simp: preserves_def same_store_def getAllPeersKeyStatus_def request_def Let_def split: option.splits)

text \<open>The methods of the router client.\<close>

lemma set_cache_preserves:
  "R = same_store \<or> R = same_router \<or> R = same_console \<or> R = stays_connected \<Longrightarrow>
   preserves R (\<lambda>v. (Inr x, v\<lparr>wireguardInterface := c\<rparr>))"
  by (auto simp: preserves_def same_store_def same_router_def same_console_def stays_connected_def)

lemma lookupInterface_preserves:
  assumes R: "R = same_store \<or> R = same_router \<or> R = same_console \<or> R = stays_connected"
    and wg: "preserves R (write_wg_print env)" and ec: "preserves R (ensureConnection env)"
  shows "preserves R (lookupInterface env cfg)"
proof -
  have fr: "frame R" using R frames by auto
  show ?thesis
    unfolding lookupInterface_def
    by (intro preserves_and_then fr wg ec)
       (auto intro!: preserves_throw fr set_cache_preserves R split: list.splits option.splits)
qed

lemma getWireGuardInterface_preserves:
  assumes R: "R = same_store \<or> R = same_router \<or> R = same_console \<or> R = stays_connected"
    and wg: "preserves R (write_wg_print env)" and ec: "preserves R (ensureConnection env)"
  shows "preserves R (getWireGuardInterface env cfg)"
proof -
  have fr: "frame R" using R frames by auto
  have "preserves R (or_else v (rethrow p (lookupInterface env cfg)))" for v p
    by (intro preserves_or_else preserves_rethrow fr lookupInterface_preserves R wg ec)
  then show ?thesis
    unfolding preserves_def getWireGuardInterface_def by blast
qed

lemma getWireGuardInterface_store: "preserves same_store (getWireGuardInterface env cfg)"
  by (rule getWireGuardInterface_preserves) (simp_all add: write_wg_print_store ensureConnection_store)
lemma getWireGuardInterface_router: "preserves same_router (getWireGuardInterface env cfg)"
  by (rule getWireGuardInterface_preserves) (simp_all add: write_wg_print_router ensureConnection_router)
lemma getWireGuardInterface_console: "preserves same_console (getWireGuardInterface env cfg)"
  by (rule getWireGuardInterface_preserves) (simp_all add: write_wg_print_console ensureConnection_console)
lemma getWireGuardInterface_connected: "preserves stays_connected (getWireGuardInterface env cfg)"
  by (rule getWireGuardInterface_preserves) (simp_all add: write_wg_print_connected ensureConnection_connected)

lemma getPeers_store: "preserves same_store (getPeers env cfg)"
  unfolding getPeers_def
  by (intro preserves_intros frames ensureConnection_store write_peers_print_store
        getWireGuardInterface_store preserves_if)
lemma getPeers_router: "preserves same_router (getPeers env cfg)"
  unfolding getPeers_def
  by (intro preserves_intros frames ensureConnection_router write_peers_print_router
        getWireGuardInterface_router preserves_if)
lemma getPeers_console: "preserves same_console (getPeers env cfg)"
  unfolding getPeers_def
  by (intro preserves_intros frames ensureConnection_console write_peers_print_console
        getWireGuardInterface_console preserves_if)
lemma getPeers_connected: "preserves stays_connected (getPeers env cfg)"
  unfolding getPeers_def
  by (intro preserves_intros frames ensureConnection_connected write_peers_print_connected
        getWireGuardInterface_connected preserves_if)

lemma deletePeer_store: "preserves same_store (deletePeer env i)"
  unfolding deletePeer_def
  by (intro preserves_intros frames ensureConnection_store write_peers_remove_store)
lemma deletePeer_console: "preserves same_console (deletePeer env i)"
  unfolding deletePeer_def
  by (intro preserves_intros frames ensureConnection_console write_peers_remove_console)
lemma deletePeer_connected: "preserves stays_connected (deletePeer env i)"
  unfolding deletePeer_def
  by (intro preserves_intros frames ensureConnection_connected write_peers_remove_connected)

lemma updatePeer_store: "preserves same_store (updatePeer env i d)"
  unfolding updatePeer_def
  by (intro preserves_intros frames ensureConnection_store write_peers_set_store)
lemma updatePeer_console: "preserves same_console (updatePeer env i d)"
  unfolding updatePeer_def
  by (intro preserves_intros frames ensureConnection_console write_peers_set_console)

lemma getServerInfo_store: "preserves same_store (getServerInfo env)"
  unfolding getServerInfo_def
  by (intro preserves_intros frames ensureConnection_store write_wg_print_store)
lemma getServerInfo_router: "preserves same_router (getServerInfo env)"
  unfolding getServerInfo_def
  by (intro preserves_intros frames ensureConnection_router write_wg_print_router)

subsection \<open>Delete\<close>

lemma deletePeer_failed_router:
  "deletePeer env i w = (Inl e, w1) \<Longrightarrow> peers w1 = peers w"
  by (auto simp: deletePeer_def and_then_def rethrow_def try_catch_def throw_def
      ensureConnection_def connect_def write_peers_remove_def request_def Let_def
      split: if_splits option.splits prod.splits sum.splits)

text \<open>
  Claim C4. When the router client's delete fails during \<^verbatim>\<open>DELETE /api/peers/:id\<close>,
  the failure is written to the console as a warning and goes no further: the custody
  record is deleted all the same and the route answers success. (The custody-store
  delete is taken to succeed; the router's table is as before.)
\<close>

theorem delete_route_tolerates_router_failure:
  assumes router_fails: "deletePeer env i w = (Inl e, w1)"
    and store_ok: "fault env (length (calls w1)) (SqlDelete i) = None"
  shows "fst (delete_route env i w)
           = Json 200 (SuccessBody ''Peer deleted (including orphaned data if any)'') \<and>
         rows (snd (delete_route env i w)) = filter (\<lambda>x. mikrotik_id x \<noteq> i) (rows w) \<and>
         (\<forall>x \<in> set (rows (snd (delete_route env i w))). mikrotik_id x \<noteq> i) \<and>
         console (snd (delete_route env i w))
           = console w @ [''Failed to delete peer from MikroTik (may already be deleted): '' @ e] \<and>
         peers (snd (delete_route env i w)) = peers w \<and>
         calls (snd (delete_route env i w)) = calls w1 @ [SqlDelete i]"
proof -
  have st: "rows w1 = rows w"
    using preservesD [OF deletePeer_store router_fails] by (simp add: same_store_def)
  have co: "console w1 = console w"
    using preservesD [OF deletePeer_console router_fails] by (simp add: same_console_def)
  have pe: "peers w1 = peers w" by (rule deletePeer_failed_router [OF router_fails])
  have run: "delete_route env i w =
      (Json 200 (SuccessBody ''Peer deleted (including orphaned data if any)''),
       w1\<lparr>console := console w1 @ [''Failed to delete peer from MikroTik (may already be deleted): '' @ e],
          calls := calls w1 @ [SqlDelete i],
          rows := filter (\<lambda>x. mikrotik_id x \<noteq> i) (rows w1)\<rparr>)"
    using router_fails store_ok
    by (simp add: delete_route_def respond_def and_then_def try_catch_def log_line_def
        deletePeerKeys_def request_def return_def Let_def)
  show ?thesis by (simp add: run st co pe)
qed

text \<open>
  A run of C4: the router refuses the removal, the record of peer \<^verbatim>\<open>*1\<close> is deleted
  and the answer is success.
\<close>

theorem delete_route_tolerates_router_failure_witness:
  "fst (deletePeer router_down ''*1'' delete_example)
     = Inl ''Failed to delete peer: no such item'' \<and>
   fst (delete_route router_down ''*1'' delete_example)
     = Json 200 (SuccessBody ''Peer deleted (including orphaned data if any)'') \<and>
   rows (snd (delete_route router_down ''*1'' delete_example)) = []"
proof -
  let ?w1 = "delete_example\<lparr>calls := [Connect, PeersRemove ''*1''], isConnected := True\<rparr>"
  have fails: "deletePeer router_down ''*1'' delete_example
                 = (Inl ''Failed to delete peer: no such item'', ?w1)"
    by (simp add: deletePeer_def and_then_def rethrow_def try_catch_def throw_def
        ensureConnection_def connect_def write_peers_remove_def request_def Let_def
        router_down_def calm_def blank_def delete_example_def)
  have ok: "fault router_down (length (calls ?w1)) (SqlDelete ''*1'') = None"
    by (simp add: router_down_def calm_def)
  have gone: "filter (\<lambda>x. mikrotik_id x \<noteq> ''*1'') (rows delete_example) = []"
    by (simp add: delete_example_def custody_row_def)
  show ?thesis
    using delete_route_tolerates_router_failure [OF fails ok]
    by (simp add: fails gone)
qed

subsection \<open>Runs in which the router answers\<close>

lemma resolved_interface_same:
  "wireguardInterface w' = wireguardInterface w \<Longrightarrow> wg_interfaces w' = wg_interfaces w
   \<Longrightarrow> resolved_interface cfg w' = resolved_interface cfg w"
  by (simp add: resolved_interface_def split: option.splits list.splits)

lemma resolved_interface_update [simp]:
  "resolved_interface cfg (w\<lparr>calls := c\<rparr>) = resolved_interface cfg w"
  "resolved_interface cfg (w\<lparr>isConnected := b\<rparr>) = resolved_interface cfg w"
  "resolved_interface cfg (w\<lparr>peers := ps\<rparr>) = resolved_interface cfg w"
  "resolved_interface cfg (w\<lparr>rows := rs\<rparr>) = resolved_interface cfg w"
  "resolved_interface cfg (w\<lparr>lastID := k\<rparr>) = resolved_interface cfg w"
  "resolved_interface cfg (w\<lparr>console := l\<rparr>) = resolved_interface cfg w"
  by (rule resolved_interface_same; simp)+

lemma reads_only_refl: "reads_only cfg w w"
  by (simp add: reads_only_def)

lemma reads_only_trans: "reads_only cfg a b \<Longrightarrow> reads_only cfg b c \<Longrightarrow> reads_only cfg a c"
  by (simp add: reads_only_def)

lemma on_interface_fun:
  "(\<lambda>p. interface p = Some n \<or> \<not> truthy (interface p)) = on_interface n"
  by (simp add: on_interface_def fun_eq_iff)

lemma ensureConnection_answers:
  assumes "router_answers env"
  shows "\<exists>w'. ensureConnection env w = (Inr (), w') \<and> isConnected w' \<and> reads_only cfg w w'"
  using assms
  by (simp add: router_answers_def ensureConnection_def connect_def request_def Let_def
      reads_only_def)

lemma find_name:
  "t \<in> if_name ` set xs \<Longrightarrow> \<exists>found. find (\<lambda>iface. if_name iface = t) xs = Some found"
  by (cases "find (\<lambda>iface. if_name iface = t) xs") (auto simp: find_None_iff)

lemma lookupInterface_answers:
  assumes ok: "router_answers env"
    and cold: "when_truthy (wireguardInterface w) = None"
    and res: "resolved_interface cfg w = Some n"
  shows "\<exists>w'. lookupInterface env cfg w = (Inr n, w') \<and> reads_only cfg w w'"
proof -
  from ensureConnection_answers [OF ok, of w cfg] obtain wa where
    ec: "ensureConnection env w = (Inr (), wa)" and ra: "reads_only cfg w wa"
    by blast
  from ok have pr: "write_wg_print env wa
      = (Inr (wg_interfaces wa), wa\<lparr>calls := calls wa @ [WgPrint]\<rparr>)"
    by (simp add: router_answers_def write_wg_print_def request_def Let_def)
  from ra have ifs: "wg_interfaces wa = wg_interfaces w" by (simp add: reads_only_def)
  from res cold obtain first rest where list: "wg_interfaces w = first # rest"
    by (cases "wg_interfaces w") (simp_all add: resolved_interface_def)
  show ?thesis
  proof (cases "when_truthy (mk_interfaceName cfg)")
    case None
    with res cold list have n: "n = if_name first" by (simp add: resolved_interface_def)
    have run: "lookupInterface env cfg w
        = (Inr n, wa\<lparr>calls := calls wa @ [WgPrint], wireguardInterface := Some n\<rparr>)"
      by (simp add: lookupInterface_def and_then_def ec pr ifs list None n)
    have "reads_only cfg w (wa\<lparr>calls := calls wa @ [WgPrint], wireguardInterface := Some n\<rparr>)"
      using ra res cold list None n
      by (auto simp: reads_only_def resolved_interface_def when_truthy_def truthy_def
          split: option.splits if_splits)
    with run show ?thesis by blast
  next
    case (Some t)
    with res cold list have n: "n = t" and mem: "t \<in> if_name ` set (first # rest)"
      by (auto simp: resolved_interface_def split: if_splits)
    from find_name [OF mem] obtain found where
      fd: "find (\<lambda>iface. if_name iface = t) (first # rest) = Some found" by blast
    have run: "lookupInterface env cfg w
        = (Inr n, wa\<lparr>calls := calls wa @ [WgPrint], wireguardInterface := Some n\<rparr>)"
      using fd by (simp add: lookupInterface_def and_then_def ec pr ifs list Some n)
    from Some n have "truthy (Some n)" by (auto simp: when_truthy_def split: if_splits)
    then have "reads_only cfg w (wa\<lparr>calls := calls wa @ [WgPrint], wireguardInterface := Some n\<rparr>)"
      using ra res by (simp add: reads_only_def resolved_interface_def when_truthy_def)
    with run show ?thesis by blast
  qed
qed

lemma getWireGuardInterface_answers:
  assumes ok: "router_answers env"
    and res: "resolved_interface cfg w = Some n"
  shows "\<exists>w'. getWireGuardInterface env cfg w = (Inr n, w') \<and> reads_only cfg w w'"
proof (cases "when_truthy (wireguardInterface w)")
  case (Some cached)
  with res have "n = cached" by (simp add: resolved_interface_def)
  with Some have "getWireGuardInterface env cfg w = (Inr n, w)"
    by (auto simp: getWireGuardInterface_def or_else_def return_def when_truthy_def truthy_def
        split: option.splits if_splits)
  then show ?thesis by (simp add: reads_only_refl)
next
  case None
  from lookupInterface_answers [OF ok None res] obtain w' where
    run: "lookupInterface env cfg w = (Inr n, w')" and ro: "reads_only cfg w w'" by blast
  from None have "getWireGuardInterface env cfg w
      = rethrow ''Failed to get WireGuard interface: '' (lookupInterface env cfg) w"
    by (auto simp: getWireGuardInterface_def or_else_def when_truthy_def truthy_def
        split: option.splits if_splits)
  with run have "getWireGuardInterface env cfg w = (Inr n, w')"
    by (simp add: rethrow_def try_catch_def)
  with ro show ?thesis by blast
qed

text \<open>
  When the router answers, \<^verbatim>\<open>getPeers\<close> reports the router's peers on the interface
  of the client.
\<close>

lemma getPeers_answers:
  assumes ok: "router_answers env"
    and res: "resolved_interface cfg w = Some n"
  shows "\<exists>w'. getPeers env cfg w = (Inr (filter (on_interface n) (peers w)), w')
              \<and> reads_only cfg w w'"
proof -
  from ensureConnection_answers [OF ok, of w cfg] obtain wa where
    ec: "ensureConnection env w = (Inr (), wa)" and ra: "reads_only cfg w wa"
    by blast
  let ?wb = "wa\<lparr>calls := calls wa @ [PeersPrint]\<rparr>"
  from ok have pr: "write_peers_print env wa = (Inr (peers wa), ?wb)"
    by (simp add: router_answers_def write_peers_print_def request_def Let_def)
  have rb: "reads_only cfg wa ?wb"
    by (simp add: reads_only_def)
  from ra res have "resolved_interface cfg ?wb = Some n"
    by (simp add: reads_only_def)
  from getWireGuardInterface_answers [OF ok this] obtain wc where
    gi: "getWireGuardInterface env cfg ?wb = (Inr n, wc)" and rc: "reads_only cfg ?wb wc"
    by blast
  from ra have pa: "peers wa = peers w" by (simp add: reads_only_def)
  have "getPeers env cfg w = (Inr (filter (on_interface n) (peers w)), wc)"
    by (simp add: getPeers_def and_then_def try_catch_def return_def ec pr gi pa
        on_interface_fun)
  moreover have "reads_only cfg w wc"
    by (rule reads_only_trans [OF ra reads_only_trans [OF rb rc]])
  ultimately show ?thesis by blast
qed

subsection \<open>Reconciliation\<close>

lemma delete_entries_ok:
  assumes ok: "\<forall>n i. fault env n (SqlDelete i) = None"
  shows "delete_entries env es w =
           (Inr (), w\<lparr>calls := calls w @ map (\<lambda>e. SqlDelete (ks_mikrotik_id e)) es,
                      rows := filter (\<lambda>x. mikrotik_id x \<notin> ks_mikrotik_id ` set es) (rows w)\<rparr>)"
proof (induction es arbitrary: w)
  case Nil
  show ?case by (simp add: return_def)
next
  case (Cons e es)
  have conj_filter: "filter (\<lambda>x. mikrotik_id x \<notin> ks_mikrotik_id ` set es)
                       (filter (\<lambda>x. mikrotik_id x \<noteq> ks_mikrotik_id e) rs)
                     = filter (\<lambda>x. mikrotik_id x \<notin> ks_mikrotik_id ` set (e # es)) rs"
    for rs :: "row list"
    by (induction rs) auto
  show ?case
    using ok by (simp add: and_then_def deletePeerKeys_def request_def Let_def Cons.IH conj_filter)
qed

lemma status_of_id [simp]: "ks_mikrotik_id (status_of x) = mikrotik_id x"
  by (simp add: status_of_def)

lemma keep_live:
  "filter (\<lambda>x. mikrotik_id x \<notin>
             ks_mikrotik_id ` set (filter (\<lambda>s. ks_mikrotik_id s \<notin> A) (map status_of rs))) rs
     = filter (\<lambda>x. mikrotik_id x \<in> A) rs"
proof (rule filter_cong [OF refl])
  fix x assume x: "x \<in> set rs"
  let ?orphans = "filter (\<lambda>s. ks_mikrotik_id s \<notin> A) (map status_of rs)"
  show "(mikrotik_id x \<notin> ks_mikrotik_id ` set ?orphans) = (mikrotik_id x \<in> A)"
  proof
    assume notin: "mikrotik_id x \<notin> ks_mikrotik_id ` set ?orphans"
    show "mikrotik_id x \<in> A"
    proof (rule ccontr)
      assume "mikrotik_id x \<notin> A"
      with x have "status_of x \<in> set ?orphans" by simp
      then have "ks_mikrotik_id (status_of x) \<in> ks_mikrotik_id ` set ?orphans" by (rule imageI)
      with notin show False by simp
    qed
  next
    assume "mikrotik_id x \<in> A"
    then show "mikrotik_id x \<notin> ks_mikrotik_id ` set ?orphans" by auto
  qed
qed

lemma length_orphans:
  "length (filter (\<lambda>s. ks_mikrotik_id s \<notin> A) (map status_of rs))
     = length (filter (\<lambda>x. mikrotik_id x \<notin> A) rs)"
  by (induction rs) auto

lemma length_split:
  "length (filter (\<lambda>x. mikrotik_id x \<notin> A) rs) = length rs - length (filter (\<lambda>x. mikrotik_id x \<in> A) rs)"
  using sum_length_filter_compl [of "\<lambda>x. mikrotik_id x \<in> A" rs] by simp

text \<open>What the reconciler does with the peer list \<open>live\<close> that the router client reports.\<close>

lemma cleanup_attempt_by_listing:
  assumes listed: "getPeers env cfg w = (Inr live, w1)"
    and list_ok: "\<forall>n. fault env n SqlSelectAll = None"
    and delete_ok: "\<forall>n i. fault env n (SqlDelete i) = None"
  shows "rows (snd (cleanup_attempt env cfg w))
           = filter (\<lambda>x. mikrotik_id x \<in> peer_id ` set live) (rows w) \<and>
         fst (cleanup_attempt env cfg w)
           = Inr (length (filter (\<lambda>x. mikrotik_id x \<notin> peer_id ` set live) (rows w)))"
proof -
  let ?A = "peer_id ` set live"
  let ?orphans = "filter (\<lambda>s. ks_mikrotik_id s \<notin> ?A) (map status_of (rows w))"
  have st: "rows w1 = rows w"
    using preservesD [OF getPeers_store listed] by (simp add: same_store_def)
  have all: "getAllPeersKeyStatus env w1
               = (Inr (map status_of (rows w)), w1\<lparr>calls := calls w1 @ [SqlSelectAll]\<rparr>)"
    using list_ok by (simp add: getAllPeersKeyStatus_def request_def Let_def st)
  have rows_after: "rows (snd (cleanup_attempt env cfg w)) = filter (\<lambda>x. mikrotik_id x \<in> ?A) (rows w)"
  proof (cases "?orphans = []")
    case True
    then have "\<forall>x \<in> set (rows w). mikrotik_id x \<in> ?A"
      by (auto simp: filter_empty_conv status_of_def)
    then have "filter (\<lambda>x. mikrotik_id x \<in> ?A) (rows w) = rows w"
      by (simp add: filter_id_conv)
    with True show ?thesis
      by (simp add: cleanup_attempt_def and_then_def listed all return_def Let_def st)
  next
    case False
    then have "rows (snd (cleanup_attempt env cfg w))
                 = filter (\<lambda>x. mikrotik_id x \<notin> ks_mikrotik_id ` set ?orphans) (rows w)"
      by (simp add: cleanup_attempt_def and_then_def listed all return_def Let_def st
          delete_entries_ok [OF delete_ok])
    also have "\<dots> = filter (\<lambda>x. mikrotik_id x \<in> ?A) (rows w)"
      by (rule keep_live)
    finally show ?thesis .
  qed
  have "fst (cleanup_attempt env cfg w) = Inr (length ?orphans)"
    by (simp add: cleanup_attempt_def and_then_def listed all return_def Let_def
        delete_entries_ok [OF delete_ok])
  then have "fst (cleanup_attempt env cfg w)
               = Inr (length (filter (\<lambda>x. mikrotik_id x \<notin> ?A) (rows w)))"
    by (simp only: length_orphans)
  with rows_after show ?thesis by (rule conjI)
qed

lemma cleanup_completes:
  assumes listed: "getPeers env cfg w = (Inr live, w1)"
    and list_ok: "\<forall>n. fault env n SqlSelectAll = None"
    and delete_ok: "\<forall>n i. fault env n (SqlDelete i) = None"
  shows "cleanupOrphanedPeers env cfg w = cleanup_attempt env cfg w"
proof -
  from cleanup_attempt_by_listing [OF listed list_ok delete_ok]
  obtain n w2 where run1: "cleanup_attempt env cfg w = (Inr n, w2)"
    by (cases "cleanup_attempt env cfg w") auto
  show ?thesis
    by (simp add: cleanupOrphanedPeers_def try_catch_def run1)
qed

lemma cleanup_by_listing:
  assumes listed: "getPeers env cfg w = (Inr live, w1)"
    and list_ok: "\<forall>n. fault env n SqlSelectAll = None"
    and delete_ok: "\<forall>n i. fault env n (SqlDelete i) = None"
  shows "rows (snd (cleanupOrphanedPeers env cfg w))
           = filter (\<lambda>x. mikrotik_id x \<in> peer_id ` set live) (rows w) \<and>
         fst (cleanupOrphanedPeers env cfg w)
           = Inr (length (filter (\<lambda>x. mikrotik_id x \<notin> peer_id ` set live) (rows w))) \<and>
         fst (cleanupOrphanedPeers env cfg w)
           = Inr (length (rows w) - length (rows (snd (cleanupOrphanedPeers env cfg w))))"
proof -
  let ?A = "peer_id ` set live"
  note att = cleanup_attempt_by_listing [OF listed list_ok delete_ok]
  note run = cleanup_completes [OF listed list_ok delete_ok]
  have diff: "length (filter (\<lambda>x. mikrotik_id x \<notin> ?A) (rows w))
                = length (rows w) - length (filter (\<lambda>x. mikrotik_id x \<in> ?A) (rows w))"
    by (rule length_split)
  show ?thesis
    unfolding run using att diff by simp
qed

lemma delete_entries_router: "preserves same_router (delete_entries env es)"
  by (induction es) (auto intro!: preserves_intros frames deletePeerKeys_router)


lemma cleanup_attempt_router: "preserves same_router (cleanup_attempt env cfg)"
  unfolding cleanup_attempt_def Let_def
  by (intro preserves_intros frames getPeers_router getAllPeersKeyStatus_router preserves_if
        delete_entries_router)


lemma cleanupOrphanedPeers_router: "preserves same_router (cleanupOrphanedPeers env cfg)"
  unfolding cleanupOrphanedPeers_def
  by (intro preserves_intros frames cleanup_attempt_router log_line_router)

text \<open>
  Claim C3, amended. Take a run of \<^verbatim>\<open>cleanupOrphanedPeers\<close> in which the router answers
  the requests of the client (connect, list interfaces, list peers), the custody store
  answers its requests, and the client settles on the interface \<open>n\<close>. The live peers
  are then the router's peers on that interface (bound to it, or to none): the records
  left are exactly those whose identifier is the identifier of such a peer, each
  unchanged, and the number returned is the number of records whose identifier is not
  among them, which is the number of records removed. The router's table is not
  changed. When all peers of the router are on the interface, the records left are
  exactly those whose identifier is on the router.
\<close>

theorem cleanup_removes_exactly_orphans:
  assumes router_ok: "\<forall>k. fault env k Connect = None \<and> fault env k WgPrint = None
                          \<and> fault env k PeersPrint = None"
    and list_ok: "\<forall>k. fault env k SqlSelectAll = None"
    and delete_ok: "\<forall>k i. fault env k (SqlDelete i) = None"
    and iface: "resolved_interface cfg w = Some n"
  shows "rows (snd (cleanupOrphanedPeers env cfg w))
           = filter (\<lambda>x. mikrotik_id x \<in> peer_id ` set (filter (on_interface n) (peers w)))
               (rows w) \<and>
         fst (cleanupOrphanedPeers env cfg w)
           = Inr (length (filter (\<lambda>x. mikrotik_id x
                                     \<notin> peer_id ` set (filter (on_interface n) (peers w)))
                            (rows w))) \<and>
         fst (cleanupOrphanedPeers env cfg w)
           = Inr (length (rows w) - length (rows (snd (cleanupOrphanedPeers env cfg w)))) \<and>
         peers (snd (cleanupOrphanedPeers env cfg w)) = peers w \<and>
         ((\<forall>p \<in> set (peers w). on_interface n p) \<longrightarrow>
            rows (snd (cleanupOrphanedPeers env cfg w))
              = filter (\<lambda>x. mikrotik_id x \<in> peer_id ` set (peers w)) (rows w) \<and>
            fst (cleanupOrphanedPeers env cfg w)
              = Inr (length (filter (\<lambda>x. mikrotik_id x \<notin> peer_id ` set (peers w)) (rows w))))"
proof -
  from router_ok have ok: "router_answers env" by (simp add: router_answers_def)
  from getPeers_answers [OF ok iface] obtain w1 where
    listed: "getPeers env cfg w = (Inr (filter (on_interface n) (peers w)), w1)"
    by blast
  note by_list = cleanup_by_listing [OF listed list_ok delete_ok]
  have router: "peers (snd (cleanupOrphanedPeers env cfg w)) = peers w"
    using preservesD [OF cleanupOrphanedPeers_router, of env cfg w]
    by (cases "cleanupOrphanedPeers env cfg w") (simp add: same_router_def)
  have whole: "filter (on_interface n) (peers w) = peers w"
    if "\<forall>p \<in> set (peers w). on_interface n p"
    using that by (simp add: filter_id_conv)
  show ?thesis
  proof (intro conjI impI)
    assume all: "\<forall>p \<in> set (peers w). on_interface n p"
    from by_list show "rows (snd (cleanupOrphanedPeers env cfg w))
              = filter (\<lambda>x. mikrotik_id x \<in> peer_id ` set (peers w)) (rows w)"
      by (simp only: whole [OF all])
    from by_list show "fst (cleanupOrphanedPeers env cfg w)
              = Inr (length (filter (\<lambda>x. mikrotik_id x \<notin> peer_id ` set (peers w)) (rows w)))"
      by (simp only: whole [OF all])
  qed (use by_list router in blast)+
qed

lemmas run_defs = and_then_def try_catch_def rethrow_def return_def throw_def or_else_def
  log_line_def request_def Let_def ensureConnection_def connect_def
  write_wg_print_def write_peers_print_def write_peers_add_def write_peers_set_def
  write_peers_remove_def lookupInterface_def getWireGuardInterface_def getPeers_def
  createPeer_def updatePeer_def deletePeer_def getServerInfo_def when_truthy_def truthy_def
  js_or_def js_str_def

text \<open>
  Claim C3 as stated fails, in two ways. The router has peer 1 and the store has the
  records A (identifier 1) and B (identifier 2). In the first run the listing of the
  peers fails with \<^verbatim>\<open>no such item\<close>: the router client reports an empty list, and
  the reconciler deletes both records and returns 2. In the second run nothing fails,
  but peer 1 is bound to the interface \<^verbatim>\<open>wg1\<close> while the client settles on
  \<^verbatim>\<open>wg0\<close>: the peer is not listed, and again both records are deleted and 2 is
  returned. In both runs the record of a peer that is on the router is deleted.
\<close>

theorem cleanup_deletes_records_of_live_peers:
  "map peer_id (peers reconcile_example) = [''1''] \<and>
   map mikrotik_id (rows reconcile_example) = [''1'', ''2''] \<and>
   fst (getPeers no_such_item example_config reconcile_example) = Inr [] \<and>
   fst (cleanupOrphanedPeers no_such_item example_config reconcile_example) = Inr 2 \<and>
   rows (snd (cleanupOrphanedPeers no_such_item example_config reconcile_example)) = [] \<and>
   peers (snd (cleanupOrphanedPeers no_such_item example_config reconcile_example))
     = peers reconcile_example \<and>
   map peer_id (peers second_interface) = [''1''] \<and>
   map mikrotik_id (rows second_interface) = [''1'', ''2''] \<and>
   fst (getPeers calm example_config second_interface) = Inr [] \<and>
   fst (cleanupOrphanedPeers calm example_config second_interface) = Inr 2 \<and>
   rows (snd (cleanupOrphanedPeers calm example_config second_interface)) = [] \<and>
   peers (snd (cleanupOrphanedPeers calm example_config second_interface))
     = peers second_interface"
  by (simp add: cleanupOrphanedPeers_def cleanup_attempt_def getAllPeersKeyStatus_def
      deletePeerKeys_def status_of_def run_defs no_such_item_def calm_def example_config_def
      second_interface_def reconcile_example_def blank_def router_peer_def custody_row_def)

text \<open>
  The example of C3: records A (router identifier 1) and B (router identifier 2), the
  router has peer 1 on the interface of the client; B is removed, A stays, and 1 is
  returned.
\<close>

theorem cleanup_removes_exactly_orphans_witness:
  "resolved_interface example_config reconcile_example = Some ''wg0'' \<and>
   map peer_id (peers reconcile_example) = [''1''] \<and>
   map mikrotik_id (rows reconcile_example) = [''1'', ''2''] \<and>
   fst (cleanupOrphanedPeers calm example_config reconcile_example) = Inr 1 \<and>
   rows (snd (cleanupOrphanedPeers calm example_config reconcile_example)) = [custody_row 1 ''1'' ''A'']"
proof -
  have r: "\<forall>k. fault calm k Connect = None \<and> fault calm k WgPrint = None
               \<and> fault calm k PeersPrint = None"
    by (simp add: calm_def)
  have a: "\<forall>k. fault calm k SqlSelectAll = None" by (simp add: calm_def)
  have b: "\<forall>k i. fault calm k (SqlDelete i) = None" by (simp add: calm_def)
  have iface: "resolved_interface example_config reconcile_example = Some ''wg0''"
    by (simp add: resolved_interface_def when_truthy_def truthy_def reconcile_example_def
        blank_def example_config_def)
  have ps: "peers reconcile_example = [router_peer ''1'' ''172.16.0.2/32'']"
    by (simp add: reconcile_example_def)
  have all: "\<forall>p \<in> set (peers reconcile_example). on_interface ''wg0'' p"
    by (simp add: ps on_interface_def router_peer_def)
  have kept: "filter (\<lambda>x. mikrotik_id x \<in> peer_id ` set (peers reconcile_example))
                (rows reconcile_example) = [custody_row 1 ''1'' ''A'']"
    by (simp add: reconcile_example_def custody_row_def router_peer_def)
  have dropped: "length (filter (\<lambda>x. mikrotik_id x \<notin> peer_id ` set (peers reconcile_example))
                (rows reconcile_example)) = 1"
    by (simp add: reconcile_example_def custody_row_def router_peer_def)
  have ids: "map peer_id (peers reconcile_example) = [''1'']"
      "map mikrotik_id (rows reconcile_example) = [''1'', ''2'']"
    by (simp_all add: reconcile_example_def custody_row_def router_peer_def)
  from cleanup_removes_exactly_orphans [OF r a b iface] all
  have "rows (snd (cleanupOrphanedPeers calm example_config reconcile_example))
              = filter (\<lambda>x. mikrotik_id x \<in> peer_id ` set (peers reconcile_example))
                  (rows reconcile_example) \<and>
        fst (cleanupOrphanedPeers calm example_config reconcile_example)
              = Inr (length (filter (\<lambda>x. mikrotik_id x \<notin> peer_id ` set (peers reconcile_example))
                               (rows reconcile_example)))"
    by blast
  then show ?thesis
    unfolding kept dropped using iface ids by simp
qed






subsection \<open>Exported configuration\<close>




subsection \<open>Address allocation\<close>

lemma scan_find:
  "scan baseIP used i =
     (case find (\<lambda>j. candidate baseIP j \<notin> set used) [i..<255] of
        None \<Rightarrow> None
      | Some j \<Rightarrow> Some (candidate baseIP j @ ''/32''))"
proof (induction baseIP used i rule: scan.induct)
  case (1 baseIP used i)
  show ?case
  proof (cases "i < 255")
    case False
    then show ?thesis by (simp add: scan.simps [of baseIP used i])
  next
    case True
    then have upt: "[i..<255] = i # [Suc i..<255]" by (simp add: upt_conv_Cons)
    show ?thesis
    proof (cases "baseIP @ ''.'' @ show_nat i \<in> set used")
      case False
      with True show ?thesis
        by (simp add: scan.simps [of baseIP used i] upt candidate_def)
    next
      case taken: True
      have "scan baseIP used i = scan baseIP used (Suc i)"
        using True taken by (simp add: scan.simps [of baseIP used i])
      also have "\<dots> = (case find (\<lambda>j. candidate baseIP j \<notin> set used) [Suc i..<255] of
                          None \<Rightarrow> None | Some j \<Rightarrow> Some (candidate baseIP j @ ''/32''))"
        using "1.IH" [OF True refl] taken by simp
      finally show ?thesis using taken by (simp add: upt candidate_def)
    qed
  qed
qed

lemma find_upt_step:
  "i < n \<Longrightarrow> find P [i..<n] = (if P i then Some i else find P [Suc i..<n])"
  by (simp add: upt_conv_Cons)

lemma takeWhile_until:
  "takeWhile (\<lambda>c. c \<noteq> x) a = ip \<longleftrightarrow>
     x \<notin> set ip \<and> (a = ip \<or> take (Suc (length ip)) a = ip @ [x])"
proof (induction a arbitrary: ip)
  case Nil
  then show ?case by auto
next
  case (Cons c cs)
  show ?case
  proof (cases "c = x")
    case True
    then show ?thesis by (cases ip) auto
  next
    case False
    show ?thesis
    proof (cases ip)
      case Nil
      with False show ?thesis by auto
    next
      case (Cons d ds)
      with False Cons.IH [of ds] show ?thesis by auto
    qed
  qed
qed

text \<open>The addresses that the allocator collects are exactly the addresses in use.\<close>

lemma usedIPs_of_in_use: "ip \<in> set (usedIPs_of ps) \<longleftrightarrow> in_use ps ip"
proof -
  have one: "(before_slash (js_or (allowed_address p) []) = ip \<and> ip \<noteq> []) \<longleftrightarrow> assigned_to p ip"
    for p
    unfolding before_slash_def assigned_to_def js_or_def
    by (cases "allowed_address p") (auto simp: takeWhile_until)
  have "ip \<in> set (usedIPs_of ps)
          \<longleftrightarrow> (\<exists>p\<in>set ps. before_slash (js_or (allowed_address p) []) = ip \<and> ip \<noteq> [])"
    unfolding usedIPs_of_def by auto
  also have "\<dots> \<longleftrightarrow> (\<exists>p\<in>set ps. assigned_to p ip)"
    by (simp only: one)
  finally show ?thesis by (simp add: in_use_def list_ex_iff)
qed

text \<open>The mask is whatever follows the first slash.\<close>

lemma assigned_to_masked:
  "ip \<noteq> [] \<Longrightarrow> CHR ''/'' \<notin> set ip \<Longrightarrow> allowed_address p = Some (ip @ ''/'' @ m)
   \<Longrightarrow> assigned_to p ip"
  by (simp add: assigned_to_def)

lemma getNextAvailableIP_listed:
  assumes listed: "getPeers env cfg w = (Inr ps, w1)"
  shows "getNextAvailableIP env cfg w =
           (case find (\<lambda>j. candidate (js_or (clientSubnet cfg) ''172.16.0'') j
                              \<notin> set (usedIPs_of ps)) [2..<255] of
              Some j \<Rightarrow> (Inr (candidate (js_or (clientSubnet cfg) ''172.16.0'') j @ ''/32''), w1)
            | None \<Rightarrow> (Inl ''Failed to get next available IP: No available IP addresses'', w1))"
  using listed
  by (simp add: getNextAvailableIP_def rethrow_def try_catch_def and_then_def return_def
      throw_def scan_find del: upt_rec_numeral split: option.splits)


text \<open>
  Claim C8. For the peer list \<open>ps\<close> that the router client reports, the addresses
  that the allocator collects are exactly the addresses in use, that is, the allowed
  addresses of the peers with the mask, if any, stripped (\<open>in_use\<close>). The allocator
  tries the host indices 2, 3, ... 254 of the configured base in this order and returns
  the first candidate not in use, with the suffix /32; the result depends on the peer
  list and the base only. When the candidates of all 253 indices are in use it fails
  with the message that no address is available.
\<close>

theorem getNextAvailableIP_first_free:
  assumes listed: "getPeers env cfg w = (Inr ps, w1)"
  shows "(\<forall>ip. ip \<in> set (usedIPs_of ps) \<longleftrightarrow> in_use ps ip) \<and>
         getNextAvailableIP env cfg w =
           (case find (\<lambda>j. \<not> in_use ps (candidate (js_or (clientSubnet cfg) ''172.16.0'') j))
                   [2..<255] of
              Some j \<Rightarrow> (Inr (candidate (js_or (clientSubnet cfg) ''172.16.0'') j @ ''/32''), w1)
            | None \<Rightarrow> (Inl ''Failed to get next available IP: No available IP addresses'', w1)) \<and>
         ((\<forall>j \<in> {2..254}. in_use ps (candidate (js_or (clientSubnet cfg) ''172.16.0'') j))
            \<longrightarrow> fst (getNextAvailableIP env cfg w)
                  = Inl ''Failed to get next available IP: No available IP addresses'') \<and>
         card {2..254::nat} = 253"
proof -
  let ?P = "\<lambda>j. \<not> in_use ps (candidate (js_or (clientSubnet cfg) ''172.16.0'') j)"
  have strip: "\<forall>ip. ip \<in> set (usedIPs_of ps) \<longleftrightarrow> in_use ps ip"
    by (simp only: usedIPs_of_in_use) simp
  have same: "(\<lambda>j. candidate (js_or (clientSubnet cfg) ''172.16.0'') j \<notin> set (usedIPs_of ps)) = ?P"
    by (simp only: usedIPs_of_in_use)
  note getNextAvailableIP_listed [OF listed]
  then have run: "getNextAvailableIP env cfg w =
           (case find ?P [2..<255] of
              Some j \<Rightarrow> (Inr (candidate (js_or (clientSubnet cfg) ''172.16.0'') j @ ''/32''), w1)
            | None \<Rightarrow> (Inl ''Failed to get next available IP: No available IP addresses'', w1))"
    by (simp only: same)
  have full: "fst (getNextAvailableIP env cfg w)
                = Inl ''Failed to get next available IP: No available IP addresses''"
    if all: "\<forall>j \<in> {2..254}. \<not> ?P j"
  proof -
    have "\<not> (\<exists>j. j \<in> set [2..<255] \<and> ?P j)"
    proof
      assume "\<exists>j. j \<in> set [2..<255] \<and> ?P j"
      then obtain j where j: "j \<in> set [2..<255]" and free: "?P j" by blast
      from j have "2 \<le> j \<and> j \<le> 254"
        by (simp only: set_upt atLeastLessThan_iff) arith
      then have "j \<in> {2..254}" by (simp only: atLeastAtMost_iff)
      with all free show False by blast
    qed
    then have "find ?P [2..<255] = None" by (simp only: find_None_iff not_False_eq_True)
    then show ?thesis by (simp only: run option.case fst_conv)
  qed
  have slots: "card {2..254::nat} = 253" by (simp only: card_atLeastAtMost)
  from full have "(\<forall>j \<in> {2..254}. \<not> ?P j) \<longrightarrow>
      fst (getNextAvailableIP env cfg w)
        = Inl ''Failed to get next available IP: No available IP addresses''"
    by blast
  then have exhausted:
    "(\<forall>j \<in> {2..254}. in_use ps (candidate (js_or (clientSubnet cfg) ''172.16.0'') j))
       \<longrightarrow> fst (getNextAvailableIP env cfg w)
             = Inl ''Failed to get next available IP: No available IP addresses''"
    by (simp only: not_not)
  show ?thesis
    by (intro conjI strip run exhausted slots)
qed

text \<open>
  The example of C8: with 172.16.0.2 to 172.16.0.10 in use, written with the mask /32,
  with other masks and with no mask, the next address is 172.16.0.11/32.
\<close>

theorem getNextAvailableIP_first_free_witness:
  "fst (getPeers calm example_config allocation_example) = Inr (peers allocation_example) \<and>
   map allowed_address (peers allocation_example)
     = [Some ''172.16.0.2/32'', Some ''172.16.0.3/24'', Some ''172.16.0.4'',
        Some ''172.16.0.5/8'', Some ''172.16.0.6/32'', Some ''172.16.0.7/255.255.255.0'',
        Some ''172.16.0.8/32'', Some ''172.16.0.9/32'', Some ''172.16.0.10/32''] \<and>
   usedIPs_of (peers allocation_example)
     = [''172.16.0.2'', ''172.16.0.3'', ''172.16.0.4'', ''172.16.0.5'', ''172.16.0.6'',
        ''172.16.0.7'', ''172.16.0.8'', ''172.16.0.9'', ''172.16.0.10''] \<and>
   in_use (peers allocation_example) ''172.16.0.3'' \<and>
   in_use (peers allocation_example) ''172.16.0.4'' \<and>
   in_use (peers allocation_example) ''172.16.0.10'' \<and>
   \<not> in_use (peers allocation_example) ''172.16.0.11'' \<and>
   \<not> in_use (peers allocation_example) ''172.16.0.1'' \<and>
   fst (getNextAvailableIP calm example_config allocation_example) = Inr ''172.16.0.11/32''"
proof -
  let ?w1 = "allocation_example\<lparr>calls := [Connect, PeersPrint, WgPrint], isConnected := True,
                wireguardInterface := Some ''wg0''\<rparr>"
  have listed: "getPeers calm example_config allocation_example
                  = (Inr (peers allocation_example), ?w1)"
    by (simp add: run_defs calm_def example_config_def allocation_example_def blank_def
        router_peer_def)
  have addresses: "map allowed_address (peers allocation_example)
     = [Some ''172.16.0.2/32'', Some ''172.16.0.3/24'', Some ''172.16.0.4'',
        Some ''172.16.0.5/8'', Some ''172.16.0.6/32'', Some ''172.16.0.7/255.255.255.0'',
        Some ''172.16.0.8/32'', Some ''172.16.0.9/32'', Some ''172.16.0.10/32'']"
    by (simp add: allocation_example_def blank_def router_peer_def)
  have used: "usedIPs_of (peers allocation_example)
     = [''172.16.0.2'', ''172.16.0.3'', ''172.16.0.4'', ''172.16.0.5'', ''172.16.0.6'',
        ''172.16.0.7'', ''172.16.0.8'', ''172.16.0.9'', ''172.16.0.10'']"
    by (simp add: usedIPs_of_def allocation_example_def blank_def router_peer_def
        before_slash_def js_or_def)
  have base: "js_or (clientSubnet example_config) ''172.16.0'' = ''172.16.0''"
    by (simp add: js_or_def example_config_def)
  note inst = getNextAvailableIP_first_free [OF listed]
  from inst have strip: "\<And>ip. in_use (peers allocation_example) ip
      \<longleftrightarrow> ip \<in> set (usedIPs_of (peers allocation_example))"
    by blast
  have first: "find (\<lambda>j. \<not> in_use (peers allocation_example) (candidate ''172.16.0'' j))
                 [2..<255] = Some 11"
    unfolding strip used
    by (simp add: find_upt_step candidate_def show_nat.simps digit_def del: upt_rec_numeral)
  have eleven: "candidate ''172.16.0'' 11 @ ''/32'' = ''172.16.0.11/32''"
    by (simp add: candidate_def show_nat.simps digit_def)
  from inst have "getNextAvailableIP calm example_config allocation_example =
      (case find (\<lambda>j. \<not> in_use (peers allocation_example)
                          (candidate (js_or (clientSubnet example_config) ''172.16.0'') j))
              [2..<255] of
         Some j \<Rightarrow> (Inr (candidate (js_or (clientSubnet example_config) ''172.16.0'') j @ ''/32''), ?w1)
       | None \<Rightarrow> (Inl ''Failed to get next available IP: No available IP addresses'', ?w1))"
    by blast
  then have result: "fst (getNextAvailableIP calm example_config allocation_example)
                       = Inr ''172.16.0.11/32''"
    unfolding base first by (simp add: eleven)
  have uses: "in_use (peers allocation_example) ''172.16.0.3''"
      "in_use (peers allocation_example) ''172.16.0.4''"
      "in_use (peers allocation_example) ''172.16.0.10''"
      "\<not> in_use (peers allocation_example) ''172.16.0.11''"
      "\<not> in_use (peers allocation_example) ''172.16.0.1''"
    unfolding strip used by simp_all
  show ?thesis
    using listed addresses used uses result by simp
qed

subsection \<open>Regular update with a new preshared key\<close>

lemma updatePeer_effect:
  assumes "updatePeer env i d w1 = (r, w2)"
  shows "rows w2 = rows w1 \<and> console w2 = console w1 \<and> (\<exists>cs. calls w2 = calls w1 @ cs) \<and>
         (case r of Inl e \<Rightarrow> peers w2 = peers w1
          | Inr u \<Rightarrow> peers w2 = map (\<lambda>p. if peer_id p = i then set_fields d p else p) (peers w1))"
  using assms
  by (auto simp: updatePeer_def and_then_def rethrow_def try_catch_def throw_def
      ensureConnection_def connect_def write_peers_set_def request_def Let_def
      split: if_splits option.splits prod.splits sum.splits)

text \<open>
  Claim C1, amended. In a regular update with \<^verbatim>\<open>updatePresharedKey\<close> set, the fresh
  preshared key is written to the custody store first and pushed to the router
  afterwards. So when the custody write fails, the router is not contacted, and both
  the router and the custody record are as before; when the custody write succeeds,
  the custody record holds the new key whatever the router push does, and if the push
  then fails the router is unchanged.
\<close>

theorem regular_update_writes_custody_first:
  assumes nm: "truthy (u_name req) \<and> trim (js_str (u_name req)) \<noteq> []"
    and mode: "\<not> u_regenerateCompletely req \<and> u_updatePresharedKey req"
    and generated: "keytool env (length (calls w)) = Some (priv, pub, k)"
    and valid: "isValidWireGuardKey (Some k)"
  shows "(\<forall>e. fault env (length (calls w)) (SqlUpdate i) = Some e \<longrightarrow>
            update_route env cfg i req w =
              (Json 500 (ErrorBody e),
               w\<lparr>calls := calls w @ [SqlUpdate i],
                 console := console w @ [''Error updating peer: '' @ e]\<rparr>)) \<and>
         (fault env (length (calls w)) (SqlUpdate i) = None \<longrightarrow>
            rows (snd (update_route env cfg i req w)) =
              map (\<lambda>x. if mikrotik_id x = i
                        then x\<lparr>preshared_key := Some k,
                               updated_at := timestamp env (length (calls w))\<rparr> else x) (rows w) \<and>
            (\<exists>cs. calls (snd (update_route env cfg i req w)) = calls w @ [SqlUpdate i] @ cs) \<and>
            (\<forall>e. fst (update_route env cfg i req w) = Json 500 (ErrorBody e) \<longrightarrow>
                 peers (snd (update_route env cfg i req w)) = peers w) \<and>
            (\<forall>v. fst (update_route env cfg i req w) = Json 200 (PeerBody v) \<longrightarrow>
                 v_newPresharedKey v = Some k \<and>
                 peers (snd (update_route env cfg i req w)) =
                   map (\<lambda>p. if peer_id p = i
                             then set_fields (update_data (trim (js_str (u_name req))) req (Some k)) p
                             else p) (peers w)))"
proof (intro conjI allI impI)
  fix e assume "fault env (length (calls w)) (SqlUpdate i) = Some e"
  then show "update_route env cfg i req w =
              (Json 500 (ErrorBody e),
               w\<lparr>calls := calls w @ [SqlUpdate i],
                 console := console w @ [''Error updating peer: '' @ e]\<rparr>)"
    using nm mode generated valid
    by (simp add: update_route_def regular_update_def respond_def and_then_def throw_def
        generateKeys_def updatePresharedKey_def request_def Let_def js_str_def)
next
  assume ok: "fault env (length (calls w)) (SqlUpdate i) = None"
  let ?w1 = "w\<lparr>calls := calls w @ [SqlUpdate i],
                rows := map (\<lambda>x. if mikrotik_id x = i
                        then x\<lparr>preshared_key := Some k,
                               updated_at := timestamp env (length (calls w))\<rparr> else x) (rows w)\<rparr>"
  let ?d = "update_data (trim (js_str (u_name req))) req (Some k)"
  obtain r w2 where push: "updatePeer env i ?d ?w1 = (r, w2)"
    by (cases "updatePeer env i ?d ?w1")
  note eff = updatePeer_effect [OF push]
  have run: "update_route env cfg i req w =
      (case r of
         Inl e \<Rightarrow> (Json 500 (ErrorBody e), w2\<lparr>console := console w2 @ [''Error updating peer: '' @ e]\<rparr>)
       | Inr u \<Rightarrow> (Json 200 (PeerBody
                  \<lparr>v_id = i, v_name = trim (js_str (u_name req)), v_publicKey = None,
                   v_allowedIPs = u_allowedIPs req, v_enabled = u_enabled req,
                   v_hasPresharedKey = truthy (Some k),
                   v_newPresharedKey = Some k, v_regenerated = False\<rparr>), w2))"
    using nm mode generated valid ok push
    by (simp add: update_route_def regular_update_def respond_def and_then_def throw_def
        return_def generateKeys_def updatePresharedKey_def request_def Let_def js_str_def
        update_data_def split: sum.splits)
  show "rows (snd (update_route env cfg i req w)) =
          map (\<lambda>x. if mikrotik_id x = i
                    then x\<lparr>preshared_key := Some k,
                           updated_at := timestamp env (length (calls w))\<rparr> else x) (rows w)"
    using eff by (cases r) (simp_all add: run)
  show "\<exists>cs. calls (snd (update_route env cfg i req w)) = calls w @ [SqlUpdate i] @ cs"
    using eff by (cases r) (auto simp: run)
  show "peers (snd (update_route env cfg i req w)) = peers w"
    if "fst (update_route env cfg i req w) = Json 500 (ErrorBody e)" for e
    using eff that by (cases r) (simp_all add: run)
  show "v_newPresharedKey v = Some k"
    if "fst (update_route env cfg i req w) = Json 200 (PeerBody v)" for v
    using that by (cases r) (auto simp: run)
  show "peers (snd (update_route env cfg i req w)) =
          map (\<lambda>p. if peer_id p = i then set_fields ?d p else p) (peers w)"
    if "fst (update_route env cfg i req w) = Json 200 (PeerBody v)" for v
    using eff that by (cases r) (simp_all add: run)
qed

lemmas route_defs = update_route_def regular_update_def regenerate_def create_route_def
  create_on_router_def save_created_def delete_route_def respond_def generateKeys_def
  savePeerKeys_def deletePeerKeys_def updatePresharedKey_def getPeerKeys_def
  getAllPeersKeyStatus_def status_of_def

lemma calm_keys_valid:
  "isValidWireGuardKey (Some ''cHVibGlja2V5cHVibGlja2V5cHVibGlja2V5MDEyMzQ='') \<and>
   isValidWireGuardKey (Some ''c2hhcmVka2V5c2hhcmVka2V5c2hhcmVka2V5MDEyMzQ='')"
  by (simp add: isValidWireGuardKey_def is_base64_char_def)

lemma trim_laptop: "trim ''laptop'' = ''laptop''"
  by (simp add: trim_def is_space_def)

text \<open>
  Claim C1 as stated fails: the router push fails, and the custody record, which held
  the preshared key K, holds the new key; the custody store was written before the
  router was contacted.
\<close>

theorem update_router_failure_leaves_new_key_in_custody:
  "fst (update_route push_fails example_config ''*1'' rotate_request update_example)
     = Json 500 (ErrorBody ''Failed to update peer: timeout'') \<and>
   map preshared_key (rows update_example) = [Some ''K''] \<and>
   map preshared_key (rows (snd (update_route push_fails example_config ''*1'' rotate_request
                                   update_example)))
     = [Some ''c2hhcmVka2V5c2hhcmVka2V5c2hhcmVka2V5MDEyMzQ=''] \<and>
   calls (snd (update_route push_fails example_config ''*1'' rotate_request update_example))
     = [SqlUpdate ''*1'', Connect, PeersSet ''*1'']"
  using calm_keys_valid
  by (simp add: route_defs run_defs trim_laptop push_fails_def calm_def rotate_request_def
      update_example_def blank_def custody_row_def router_peer_def)

text \<open>
  Two runs of the amended C1: one in which the custody write fails, one in which the
  router push fails.
\<close>

theorem regular_update_writes_custody_first_witness:
  "fault custody_fails (length (calls update_example)) (SqlUpdate ''*1'') = Some ''SQLITE_IOERR'' \<and>
   fst (update_route custody_fails example_config ''*1'' rotate_request update_example)
     = Json 500 (ErrorBody ''SQLITE_IOERR'') \<and>
   peers (snd (update_route custody_fails example_config ''*1'' rotate_request update_example))
     = peers update_example \<and>
   rows (snd (update_route custody_fails example_config ''*1'' rotate_request update_example))
     = rows update_example \<and>
   fault push_fails (length (calls update_example)) (SqlUpdate ''*1'') = None \<and>
   fst (update_route push_fails example_config ''*1'' rotate_request update_example)
     = Json 500 (ErrorBody ''Failed to update peer: timeout'') \<and>
   peers (snd (update_route push_fails example_config ''*1'' rotate_request update_example))
     = peers update_example \<and>
   map preshared_key (rows (snd (update_route push_fails example_config ''*1'' rotate_request
                                   update_example)))
     = [Some ''c2hhcmVka2V5c2hhcmVka2V5c2hhcmVka2V5MDEyMzQ='']"
proof -
  have nm: "truthy (u_name rotate_request) \<and> trim (js_str (u_name rotate_request)) \<noteq> []"
    by (simp add: rotate_request_def truthy_def js_str_def trim_laptop)
  have mode: "\<not> u_regenerateCompletely rotate_request \<and> u_updatePresharedKey rotate_request"
    by (simp add: rotate_request_def)
  have gen1: "keytool custody_fails (length (calls update_example))
                = Some (''cHJpdmF0ZWtleXByaXZhdGVrZXlwcml2YXRla2V5MDE='',
                        ''cHVibGlja2V5cHVibGlja2V5cHVibGlja2V5MDEyMzQ='',
                        ''c2hhcmVka2V5c2hhcmVka2V5c2hhcmVka2V5MDEyMzQ='')"
    by (simp add: custody_fails_def calm_def)
  have gen2: "keytool push_fails (length (calls update_example))
                = Some (''cHJpdmF0ZWtleXByaXZhdGVrZXlwcml2YXRla2V5MDE='',
                        ''cHVibGlja2V5cHVibGlja2V5cHVibGlja2V5MDEyMzQ='',
                        ''c2hhcmVka2V5c2hhcmVka2V5c2hhcmVka2V5MDEyMzQ='')"
    by (simp add: push_fails_def calm_def)
  have valid: "isValidWireGuardKey (Some ''c2hhcmVka2V5c2hhcmVka2V5c2hhcmVka2V5MDEyMzQ='')"
    using calm_keys_valid by simp
  have f1: "fault custody_fails (length (calls update_example)) (SqlUpdate ''*1'') = Some ''SQLITE_IOERR''"
    by (simp add: custody_fails_def calm_def)
  have f2: "fault push_fails (length (calls update_example)) (SqlUpdate ''*1'') = None"
    by (simp add: push_fails_def calm_def)
  have resp2: "fst (update_route push_fails example_config ''*1'' rotate_request update_example)
                 = Json 500 (ErrorBody ''Failed to update peer: timeout'')"
    using calm_keys_valid
    by (simp add: route_defs run_defs trim_laptop push_fails_def calm_def rotate_request_def
        update_example_def blank_def custody_row_def router_peer_def)
  have old: "map preshared_key (map (\<lambda>x. if mikrotik_id x = ''*1''
                 then x\<lparr>preshared_key := Some ''c2hhcmVka2V5c2hhcmVka2V5c2hhcmVka2V5MDEyMzQ='',
                        updated_at := timestamp push_fails (length (calls update_example))\<rparr>
                 else x) (rows update_example))
             = [Some ''c2hhcmVka2V5c2hhcmVka2V5c2hhcmVka2V5MDEyMzQ='']"
    by (simp add: update_example_def blank_def custody_row_def)
  note a = regular_update_writes_custody_first [OF nm mode gen1 valid, of "''*1''" example_config]
  note b = regular_update_writes_custody_first [OF nm mode gen2 valid, of "''*1''" example_config]
  from a f1 have a1: "update_route custody_fails example_config ''*1'' rotate_request update_example =
              (Json 500 (ErrorBody ''SQLITE_IOERR''),
               update_example\<lparr>calls := calls update_example @ [SqlUpdate ''*1''],
                 console := console update_example @ [''Error updating peer: '' @ ''SQLITE_IOERR'']\<rparr>)"
    by blast
  from b f2 resp2 have b1: "peers (snd (update_route push_fails example_config ''*1'' rotate_request update_example))
     = peers update_example" by blast
  from b f2 have b2: "rows (snd (update_route push_fails example_config ''*1'' rotate_request update_example)) =
              map (\<lambda>x. if mikrotik_id x = ''*1''
                 then x\<lparr>preshared_key := Some ''c2hhcmVka2V5c2hhcmVka2V5c2hhcmVka2V5MDEyMzQ='',
                        updated_at := timestamp push_fails (length (calls update_example))\<rparr>
                 else x) (rows update_example)" by blast
  show ?thesis
    unfolding b2 old by (simp add: f1 f2 a1 b1 resp2)
qed

subsection \<open>Create and its compensation\<close>

lemma and_then_InrD:
  "and_then m f w = (Inr b, w') \<Longrightarrow> \<exists>a w1. m w = (Inr a, w1) \<and> f a w1 = (Inr b, w')"
  by (auto simp: and_then_def split: prod.splits sum.splits)

lemma rethrow_InrD: "rethrow p m w = (Inr b, w') \<Longrightarrow> m w = (Inr b, w')"
  by (auto simp: rethrow_def try_catch_def throw_def split: prod.splits sum.splits)

lemma createPeer_store: "preserves same_store (createPeer env cfg d)"
  unfolding createPeer_def
  by (intro preserves_intros frames ensureConnection_store preserves_if
        getWireGuardInterface_store write_peers_add_store)
     (auto intro!: preserves_intros frames getPeers_store split: option.splits)

lemma createPeer_console: "preserves same_console (createPeer env cfg d)"
  unfolding createPeer_def
  by (intro preserves_intros frames ensureConnection_console preserves_if
        getWireGuardInterface_console write_peers_add_console)
     (auto intro!: preserves_intros frames getPeers_console split: option.splits)

lemma createPeer_rest_connected:
  "preserves stays_connected
     (rethrow p
         (and_then (if \<not> truthy (pd_interface peerData)
                    then and_then (getWireGuardInterface env cfg)
                           (\<lambda>n. return (peerData\<lparr>pd_interface := Some n\<rparr>))
                    else return peerData) (\<lambda>peerData.
          and_then (write_peers_add env peerData) (\<lambda>result.
            case reply_id result of
              Some mikrotikId \<Rightarrow> return mikrotikId
            | None \<Rightarrow>
                and_then (getPeers env cfg) (\<lambda>ps.
                  case find (\<lambda>p. public_key p = pd_public_key peerData
                                   \<and> comment p = pd_comment peerData) ps of
                    Some newPeer \<Rightarrow> return (peer_id newPeer)
                  | None \<Rightarrow> throw e0)))))"
  by (intro preserves_intros frames preserves_if
        getWireGuardInterface_connected write_peers_add_connected)
     (auto intro!: preserves_intros frames getPeers_connected split: option.splits)

lemma createPeer_Inr_connected:
  assumes "createPeer env cfg d w = (Inr x, w')"
  shows "isConnected w'"
proof -
  from assms obtain wa where ec: "ensureConnection env w = (Inr (), wa)"
    and rest: "rethrow ''Failed to create peer: ''
         (and_then (if \<not> truthy (pd_interface d)
                    then and_then (getWireGuardInterface env cfg)
                           (\<lambda>n. return (d\<lparr>pd_interface := Some n\<rparr>))
                    else return d) (\<lambda>peerData.
          and_then (write_peers_add env peerData) (\<lambda>result.
            case reply_id result of
              Some mikrotikId \<Rightarrow> return mikrotikId
            | None \<Rightarrow>
                and_then (getPeers env cfg) (\<lambda>ps.
                  case find (\<lambda>p. public_key p = pd_public_key peerData
                                   \<and> comment p = pd_comment peerData) ps of
                    Some newPeer \<Rightarrow> return (peer_id newPeer)
                  | None \<Rightarrow> throw ''Failed to get ID for newly created peer'')))) wa = (Inr x, w')"
    unfolding createPeer_def by (auto dest!: and_then_InrD)
  have "isConnected wa" by (rule ensureConnection_Inr [OF ec])
  with preservesD [OF createPeer_rest_connected rest] show ?thesis
    by (simp add: stays_connected_def)
qed

lemma getNextAvailableIP_store: "preserves same_store (getNextAvailableIP env cfg)"
  unfolding getNextAvailableIP_def
  by (intro preserves_intros frames getPeers_store)
     (auto intro!: preserves_intros frames split: option.splits)

lemma getNextAvailableIP_console: "preserves same_console (getNextAvailableIP env cfg)"
  unfolding getNextAvailableIP_def
  by (intro preserves_intros frames getPeers_console)
     (auto intro!: preserves_intros frames split: option.splits)

lemma create_on_router_store: "preserves same_store (create_on_router env cfg t req)"
  unfolding create_on_router_def
  by (intro preserves_intros frames getWireGuardInterface_store generateKeys_preserves
        preserves_if getNextAvailableIP_store createPeer_store)

lemma create_on_router_console: "preserves same_console (create_on_router env cfg t req)"
  unfolding create_on_router_def
  by (intro preserves_intros frames getWireGuardInterface_console generateKeys_preserves
        preserves_if getNextAvailableIP_console createPeer_console)

lemma getPeers_Inr_subset:
  assumes "getPeers env cfg w = (Inr ps, w1)"
  shows "set ps \<subseteq> set (peers w)"
proof -
  from assms have "and_then (ensureConnection env) (\<lambda>_.
       try_catch
         (and_then (write_peers_print env) (\<lambda>ps.
          and_then (getWireGuardInterface env cfg) (\<lambda>interfaceName.
            return (filter (\<lambda>p. interface p = Some interfaceName \<or> \<not> truthy (interface p)) ps))))
         (\<lambda>e. if str_includes e ''no such item'' \<or> str_includes e ''not found''
               then return []
               else throw (''Failed to get peers: '' @ e))) w = (Inr ps, w1)"
    by (simp only: getPeers_def)
  from and_then_InrD [OF this] obtain u wa where ec: "ensureConnection env w = (Inr u, wa)"
    and rest: "try_catch
         (and_then (write_peers_print env) (\<lambda>ps.
          and_then (getWireGuardInterface env cfg) (\<lambda>interfaceName.
            return (filter (\<lambda>p. interface p = Some interfaceName \<or> \<not> truthy (interface p)) ps))))
         (\<lambda>e. if str_includes e ''no such item'' \<or> str_includes e ''not found''
               then return []
               else throw (''Failed to get peers: '' @ e)) wa = (Inr ps, w1)"
    by blast
  have same: "peers wa = peers w"
    using preservesD [OF ensureConnection_router ec] by (simp add: same_router_def)
  from rest have "set ps \<subseteq> set (peers wa)"
    by (auto simp: try_catch_def and_then_def return_def throw_def write_peers_print_def
        request_def Let_def split: prod.splits sum.splits option.splits if_splits)
  with same show ?thesis by simp
qed

lemma reply_id_Some: "reply_id (reply_of sh i) = Some m \<Longrightarrow> m = i"
  by (auto simp: reply_id_def reply_of_def split: reply_shape.splits if_splits)

lemma write_peers_add_Inr:
  "write_peers_add env d w = (Inr r, w1) \<Longrightarrow>
   \<exists>n. r = reply_of (shape env n) (new_id env n) \<and>
       peers w1 = peers w @ [\<lparr>peer_id = new_id env n, interface = pd_interface d,
                   public_key = pd_public_key d, allowed_address = pd_allowed_address d,
                   comment = pd_comment d, disabled = pd_disabled d,
                   peer_preshared_key = pd_preshared_key d\<rparr>]"
  by (auto simp: write_peers_add_def request_def Let_def split: option.splits)

lemma createPeer_Inr:
  assumes run: "createPeer env cfg d w = (Inr newId, w1)"
    and sent: "pd_public_key d = k"
  shows "\<exists>n p. peers w1 = peers w @ [p] \<and> peer_id p = new_id env n \<and> public_key p = k \<and>
               (\<exists>q \<in> set (peers w1). peer_id q = newId \<and> public_key q = k)"
proof -
  from run have "and_then (ensureConnection env) (\<lambda>_.
       rethrow ''Failed to create peer: ''
         (and_then (if \<not> truthy (pd_interface d)
                    then and_then (getWireGuardInterface env cfg)
                           (\<lambda>n. return (d\<lparr>pd_interface := Some n\<rparr>))
                    else return d) (\<lambda>peerData.
          and_then (write_peers_add env peerData) (\<lambda>result.
            case reply_id result of
              Some mikrotikId \<Rightarrow> return mikrotikId
            | None \<Rightarrow>
                and_then (getPeers env cfg) (\<lambda>ps.
                  case find (\<lambda>p. public_key p = pd_public_key peerData
                                   \<and> comment p = pd_comment peerData) ps of
                    Some newPeer \<Rightarrow> return (peer_id newPeer)
                  | None \<Rightarrow> throw ''Failed to get ID for newly created peer''))))) w
      = (Inr newId, w1)"
    by (simp only: createPeer_def)
  from and_then_InrD [OF this] obtain u wa where ec: "ensureConnection env w = (Inr u, wa)"
    and wrapped: "rethrow ''Failed to create peer: ''
         (and_then (if \<not> truthy (pd_interface d)
                    then and_then (getWireGuardInterface env cfg)
                           (\<lambda>n. return (d\<lparr>pd_interface := Some n\<rparr>))
                    else return d) (\<lambda>peerData.
          and_then (write_peers_add env peerData) (\<lambda>result.
            case reply_id result of
              Some mikrotikId \<Rightarrow> return mikrotikId
            | None \<Rightarrow>
                and_then (getPeers env cfg) (\<lambda>ps.
                  case find (\<lambda>p. public_key p = pd_public_key peerData
                                   \<and> comment p = pd_comment peerData) ps of
                    Some newPeer \<Rightarrow> return (peer_id newPeer)
                  | None \<Rightarrow> throw ''Failed to get ID for newly created peer'')))) wa
      = (Inr newId, w1)"
    by blast
  note rest = rethrow_InrD [OF wrapped]
  have pa: "peers wa = peers w"
    using preservesD [OF ensureConnection_router ec] by (simp add: same_router_def)
  from and_then_InrD [OF rest] obtain d' wb where
    pick: "(if \<not> truthy (pd_interface d)
            then and_then (getWireGuardInterface env cfg) (\<lambda>n. return (d\<lparr>pd_interface := Some n\<rparr>))
            else return d) wa = (Inr d', wb)"
    and rest2: "and_then (write_peers_add env d') (\<lambda>result.
            case reply_id result of
              Some mikrotikId \<Rightarrow> return mikrotikId
            | None \<Rightarrow>
                and_then (getPeers env cfg) (\<lambda>ps.
                  case find (\<lambda>p. public_key p = pd_public_key d'
                                   \<and> comment p = pd_comment d') ps of
                    Some newPeer \<Rightarrow> return (peer_id newPeer)
                  | None \<Rightarrow> throw ''Failed to get ID for newly created peer'')) wb = (Inr newId, w1)"
    by blast
  have "preserves same_router
          (if \<not> truthy (pd_interface d)
           then and_then (getWireGuardInterface env cfg) (\<lambda>n. return (d\<lparr>pd_interface := Some n\<rparr>))
           else return d)"
    by (intro preserves_if preserves_intros frames getWireGuardInterface_router)
  from preservesD [OF this pick] have pb: "peers wb = peers wa" by (simp add: same_router_def)
  have key: "pd_public_key d' = pd_public_key d"
    using pick by (auto simp: return_def and_then_def split: if_splits prod.splits sum.splits)
  from and_then_InrD [OF rest2] obtain result wc where
    add: "write_peers_add env d' wb = (Inr result, wc)"
    and rest3: "(case reply_id result of
              Some mikrotikId \<Rightarrow> return mikrotikId
            | None \<Rightarrow>
                and_then (getPeers env cfg) (\<lambda>ps.
                  case find (\<lambda>p. public_key p = pd_public_key d'
                                   \<and> comment p = pd_comment d') ps of
                    Some newPeer \<Rightarrow> return (peer_id newPeer)
                  | None \<Rightarrow> throw ''Failed to get ID for newly created peer'')) wc = (Inr newId, w1)"
    by blast
  from write_peers_add_Inr [OF add] obtain n where
    result: "result = reply_of (shape env n) (new_id env n)"
    and pc: "peers wc = peers wb @ [\<lparr>peer_id = new_id env n, interface = pd_interface d',
                   public_key = pd_public_key d', allowed_address = pd_allowed_address d',
                   comment = pd_comment d', disabled = pd_disabled d',
                   peer_preshared_key = pd_preshared_key d'\<rparr>]"
    by blast
  let ?p = "\<lparr>peer_id = new_id env n, interface = pd_interface d',
                   public_key = pd_public_key d', allowed_address = pd_allowed_address d',
                   comment = pd_comment d', disabled = pd_disabled d',
                   peer_preshared_key = pd_preshared_key d'\<rparr>"
  have found: "peers w1 = peers wc \<and> (\<exists>q \<in> set (peers wc). peer_id q = newId \<and> public_key q = pd_public_key d')"
  proof (cases "reply_id result")
    case (Some m)
    with rest3 have "w1 = wc" "newId = m" by (simp_all add: return_def)
    moreover from Some result have "m = new_id env n" by (simp add: reply_id_Some)
    ultimately show ?thesis using pc by auto
  next
    case None
    with rest3 have "and_then (getPeers env cfg) (\<lambda>ps.
                  case find (\<lambda>p. public_key p = pd_public_key d'
                                   \<and> comment p = pd_comment d') ps of
                    Some newPeer \<Rightarrow> return (peer_id newPeer)
                  | None \<Rightarrow> throw ''Failed to get ID for newly created peer'') wc = (Inr newId, w1)"
      by simp
    from and_then_InrD [OF this] obtain ps wd where
      listed: "getPeers env cfg wc = (Inr ps, wd)"
      and pick2: "(case find (\<lambda>p. public_key p = pd_public_key d' \<and> comment p = pd_comment d') ps of
                    Some newPeer \<Rightarrow> return (peer_id newPeer)
                  | None \<Rightarrow> throw ''Failed to get ID for newly created peer'') wd = (Inr newId, w1)"
      by blast
    from pick2 obtain q where
      q: "find (\<lambda>p. public_key p = pd_public_key d' \<and> comment p = pd_comment d') ps = Some q"
      and "w1 = wd" "newId = peer_id q"
      by (auto simp: return_def throw_def split: option.splits)
    from q have "q \<in> set ps" "public_key q = pd_public_key d'"
      by (auto simp: find_Some_iff)
    moreover have "set ps \<subseteq> set (peers wc)" by (rule getPeers_Inr_subset [OF listed])
    moreover have "peers wd = peers wc"
      using preservesD [OF getPeers_router listed] by (simp add: same_router_def)
    ultimately show ?thesis using \<open>w1 = wd\<close> \<open>newId = peer_id q\<close> by auto
  qed
  show ?thesis
    using found pc pb pa key sent
    by (intro exI [of _ n] exI [of _ ?p]) auto
qed

lemma create_on_router_Inr:
  assumes "create_on_router env cfg t req w = (Inr (ks, ips, mid), w1)"
  shows "isConnected w1 \<and> mid \<noteq> [] \<and> rows w1 = rows w \<and> lastID w1 = lastID w
         \<and> console w1 = console w
         \<and> (\<exists>p \<in> set (peers w1). peer_id p = mid \<and> public_key p = Some (publicKey ks))"
proof -
  from assms obtain d wa where made: "createPeer env cfg d wa = (Inr mid, w1)"
    and "mid \<noteq> []" and sent: "pd_public_key d = Some (publicKey ks)"
    unfolding create_on_router_def
    by (auto dest!: and_then_InrD simp: throw_def return_def split: if_splits)
  then have "isConnected w1 \<and> mid \<noteq> []" by (simp add: createPeer_Inr_connected)
  moreover have "rows w1 = rows w \<and> lastID w1 = lastID w"
    using preservesD [OF create_on_router_store assms] by (simp add: same_store_def)
  moreover have "console w1 = console w"
    using preservesD [OF create_on_router_console assms] by (simp add: same_console_def)
  moreover have "\<exists>p \<in> set (peers w1). peer_id p = mid \<and> public_key p = Some (publicKey ks)"
    using createPeer_Inr [OF made sent] by blast
  ultimately show ?thesis by simp
qed



lemma save_created_failed_save:
  assumes conn: "isConnected w1"
    and save_fails: "fault env (length (calls w1)) (SqlInsert mid) = Some e"
  shows "save_created env t ks ips mid w1 =
           (case fault env (Suc (length (calls w1))) (PeersRemove mid) of
              None \<Rightarrow>
                (Inl (''Failed to save peer keys: '' @ e),
                 w1\<lparr>calls := calls w1 @ [SqlInsert mid, PeersRemove mid],
                    console := console w1 @ [''Database save error: '' @ e],
                    peers := filter (\<lambda>p. peer_id p \<noteq> mid) (peers w1)\<rparr>)
            | Some e2 \<Rightarrow>
                (Inl (''Failed to save peer keys: '' @ e),
                 w1\<lparr>calls := calls w1 @ [SqlInsert mid, PeersRemove mid],
                    console := console w1 @
                      [''Database save error: '' @ e,
                       ''Failed to cleanup peer after database error: Failed to delete peer: '' @ e2]\<rparr>))"
  using conn save_fails
  by (simp add: save_created_def savePeerKeys_def deletePeer_def write_peers_remove_def
      ensureConnection_def request_def and_then_def try_catch_def rethrow_def throw_def
      return_def log_line_def Let_def split: option.splits)

lemma create_route_after_router:
  assumes nm: "truthy (c_name req) \<and> trim (js_str (c_name req)) \<noteq> []"
    and created: "create_on_router env cfg (trim (js_str (c_name req))) req w = (Inr (ks, ips, mid), w1)"
  shows "create_route env cfg req w =
           respond ''Error creating peer: ''
             (and_then (save_created env (trim (js_str (c_name req))) ks ips mid) (\<lambda>_.
                return (Json 200 (PeerBody (created_view (trim (js_str (c_name req))) ks ips mid))))) w1"
  using nm created
  by (simp add: create_route_def respond_def and_then_def created_view_def Let_def)










text \<open>
  Claim C5, amended. When the save fails and the compensating delete fails too, the
  caller is told of the save failure only; the failure of the delete is written to the
  console. The peer just created stays on the router, and nothing is stored for it: the
  custody store is as before the request.
\<close>

theorem create_reports_only_the_save_failure:
  assumes nm: "truthy (c_name req) \<and> trim (js_str (c_name req)) \<noteq> []"
    and created: "create_on_router env cfg (trim (js_str (c_name req))) req w = (Inr (ks, ips, mid), w1)"
    and save_fails: "fault env (length (calls w1)) (SqlInsert mid) = Some e"
    and delete_fails: "fault env (Suc (length (calls w1))) (PeersRemove mid) = Some e2"
  shows "fst (create_route env cfg req w) = Json 500 (ErrorBody (''Failed to save peer keys: '' @ e)) \<and>
         console (snd (create_route env cfg req w)) =
           console w @ [''Database save error: '' @ e,
                        ''Failed to cleanup peer after database error: Failed to delete peer: '' @ e2,
                        ''Error creating peer: Failed to save peer keys: '' @ e] \<and>
         calls (snd (create_route env cfg req w)) = calls w1 @ [SqlInsert mid, PeersRemove mid] \<and>
         peers (snd (create_route env cfg req w)) = peers w1 \<and>
         (\<exists>p \<in> set (peers (snd (create_route env cfg req w))). peer_id p = mid) \<and>
         rows (snd (create_route env cfg req w)) = rows w"
proof -
  note w1 = create_on_router_Inr [OF created]
  have run: "create_route env cfg req w =
      (Json 500 (ErrorBody (''Failed to save peer keys: '' @ e)),
       w1\<lparr>calls := calls w1 @ [SqlInsert mid, PeersRemove mid],
          console := console w1 @ [''Database save error: '' @ e,
                       ''Failed to cleanup peer after database error: Failed to delete peer: '' @ e2,
                       ''Error creating peer: Failed to save peer keys: '' @ e]\<rparr>)"
    using w1 save_fails delete_fails
    by (simp add: create_route_after_router [OF nm created] respond_def and_then_def
        save_created_failed_save)
  have made: "\<exists>p \<in> set (peers w1). peer_id p = mid"
    using w1 by blast
  show ?thesis
    using w1 made by (simp add: run)
qed

lemmas example_defs = calm_def blank_def example_config_def custody_row_def router_peer_def
  getNextAvailableIP_def usedIPs_of_def before_slash_def scan.simps show_nat.simps digit_def


lemma laptop_name:
  "truthy (c_name laptop_request) \<and> trim (js_str (c_name laptop_request)) \<noteq> []"
  "trim (js_str (c_name laptop_request)) = ''laptop''"
  by (simp_all add: laptop_request_def truthy_def js_str_def trim_laptop)


text \<open>
  A run of the amended C5.
\<close>

theorem create_reports_only_the_save_failure_witness:
  "fst (create_route cleanup_fails example_config laptop_request blank)
     = Json 500 (ErrorBody ''Failed to save peer keys: disk full'') \<and>
   console (snd (create_route cleanup_fails example_config laptop_request blank))
     = [''Database save error: disk full'',
        ''Failed to cleanup peer after database error: Failed to delete peer: timeout'',
        ''Error creating peer: Failed to save peer keys: disk full''] \<and>
   map peer_id (peers (snd (create_route cleanup_fails example_config laptop_request blank)))
     = [''*A''] \<and>
   rows (snd (create_route cleanup_fails example_config laptop_request blank)) = []"
proof -
  let ?ks = "\<lparr>privateKey = ''cHJpdmF0ZWtleXByaXZhdGVrZXlwcml2YXRla2V5MDE='',
              publicKey = ''cHVibGlja2V5cHVibGlja2V5cHVibGlja2V5MDEyMzQ='',
              presharedKey = Some ''c2hhcmVka2V5c2hhcmVka2V5c2hhcmVka2V5MDEyMzQ=''\<rparr>"
  let ?p = "\<lparr>peer_id = ''*A'', interface = Some ''wg0'',
             public_key = Some ''cHVibGlja2V5cHVibGlja2V5cHVibGlja2V5MDEyMzQ='',
             allowed_address = Some ''172.16.0.2/32'', comment = Some ''laptop'',
             disabled = Some ''false'',
             peer_preshared_key = Some ''c2hhcmVka2V5c2hhcmVka2V5c2hhcmVka2V5MDEyMzQ=''\<rparr>"
  let ?w1 = "blank\<lparr>peers := [?p], isConnected := True, wireguardInterface := Some ''wg0'',
               calls := [Connect, PeersPrint, WgPrint, PeersAdd]\<rparr>"
  have created: "create_on_router cleanup_fails example_config
                   (trim (js_str (c_name laptop_request))) laptop_request blank
                 = (Inr (?ks, ''172.16.0.2/32'', ''*A''), ?w1)"
    using calm_keys_valid
    by (simp add: laptop_name trim_laptop laptop_request_def create_on_router_def generateKeys_def run_defs
        cleanup_fails_def example_defs reply_id_def reply_of_def)
  have f1: "fault cleanup_fails (length (calls ?w1)) (SqlInsert ''*A'') = Some ''disk full''"
    by (simp add: cleanup_fails_def calm_def)
  have f2: "fault cleanup_fails (Suc (length (calls ?w1))) (PeersRemove ''*A'') = Some ''timeout''"
    by (simp add: cleanup_fails_def calm_def)
  show ?thesis
    using create_reports_only_the_save_failure [OF laptop_name(1) created f1 f2]
    by (simp add: blank_def)
qed

text \<open>
  Claim C5 as stated fails: the save fails with \<^verbatim>\<open>disk full\<close>, the compensating delete
  with \<^verbatim>\<open>timeout\<close>, and the answer to the caller does not mention the timeout.
\<close>

theorem create_hides_the_cleanup_failure:
  "fst (create_route cleanup_fails example_config laptop_request blank)
     = Json 500 (ErrorBody ''Failed to save peer keys: disk full'') \<and>
   \<not> str_includes ''Failed to save peer keys: disk full'' ''timeout'' \<and>
   calls (snd (create_route cleanup_fails example_config laptop_request blank))
     = [Connect, PeersPrint, WgPrint, PeersAdd, SqlInsert ''*A'', PeersRemove ''*A''] \<and>
   fault cleanup_fails 5 (PeersRemove ''*A'') = Some ''timeout''"
  using calm_keys_valid
  by (simp add: laptop_name trim_laptop laptop_request_def route_defs run_defs
      cleanup_fails_def example_defs reply_id_def reply_of_def)

subsection \<open>Complete regeneration\<close>








end
